theory Spec2Isabelle
  imports Main "HOL-Library.Sublist"
begin

section \<open>The DNS authentication check of \<^verbatim>\<open>frontend/src/App.js\<close>\<close>

text \<open>
  The decision logic of the application lives in two closures of the \<^verbatim>\<open>App\<close>
  component: \<^verbatim>\<open>checkDNS\<close> (lines 113-121), which asks a DNS-over-HTTPS service
  for the records of a name, and \<^verbatim>\<open>handleCheck\<close> (lines 123-255), which derives
  the domain from the e-mail address, classifies the SPF, DMARC and DKIM records and
  aggregates the three statuses.

  JavaScript strings are modelled as \<^typ>\<open>string\<close>. The network is a function from
  the fetched URL to what the fetch produced; every fetch is appended to a log of URLs, so
  that "no query is issued" is a statement about that log. The clock read by
  \<^verbatim>\<open>new Date().toISOString()\<close> is a parameter.
\<close>

subsection \<open>Strings\<close>

text \<open>\<^verbatim>\<open>s.includes(t)\<close>: \<open>t\<close> occurs in \<open>s\<close> as a contiguous substring.\<close>

fun includes_str :: "string \<Rightarrow> string \<Rightarrow> bool" where
  "includes_str [] t = (t = [])"
| "includes_str (c # s) t = (if prefix t (c # s) then True else includes_str s t)"

text \<open>\<^verbatim>\<open>s.split(sep)\<close> for a one-character separator: all the pieces, in order.
  The empty string gives one empty piece.\<close>

fun split :: "char \<Rightarrow> string \<Rightarrow> string list" where
  "split sep [] = [[]]"
| "split sep (c # s) =
     (if c = sep then [] # split sep s
      else (case split sep s of
              [] \<Rightarrow> [[c]]
            | p # ps \<Rightarrow> (c # p) # ps))"

text \<open>\<^verbatim>\<open>s.toLowerCase()\<close>. A \<^typ>\<open>char\<close> stands for the code unit of the
  same number, so the strings of the model are the JavaScript strings whose code units are
  below 256. Among these the characters with a different lower-case form are the letters
  \<open>A\<close> to \<open>Z\<close> (65 to 90) and the accented capitals 192 to 222 without the
  multiplication sign 215; each is mapped to the code 32 above it. Every other character
  is kept.\<close>

definition lower_char :: "char \<Rightarrow> char" where
  "lower_char c =
     (let n = (of_char c :: nat) in
      if (65 \<le> n \<and> n \<le> 90) \<or> (192 \<le> n \<and> n \<le> 222 \<and> n \<noteq> 215)
      then char_of (n + 32) else c)"

definition toLowerCase :: "string \<Rightarrow> string" where
  "toLowerCase s = map lower_char s"

text \<open>\<^verbatim>\<open>s.replace(/"/g, '')\<close>: the regular expression has the global flag, so
  every double-quote character (code 0x22) of \<open>s\<close> is removed, wherever it stands.\<close>

definition dquote :: char where
  "dquote = CHR 0x22"

definition remove_quotes :: "string \<Rightarrow> string" where
  "remove_quotes s = filter (\<lambda>c. c \<noteq> dquote) s"

subsection \<open>Data\<close>

datatype record_status = Valid | Warning | Missing | Invalid

datatype overall_status = Pass | OverallWarning | Fail

text \<open>One element of the \<^verbatim>\<open>Answer\<close> array of the resolver's JSON.\<close>

record raw_answer =
  name :: string
  data :: string

text \<open>The object literals assigned to \<^verbatim>\<open>spf\<close>, \<^verbatim>\<open>dmarc\<close> and
  \<^verbatim>\<open>dkim\<close>; a \<^verbatim>\<open>null\<close> record is \<open>None\<close>.\<close>

record record_evaluation =
  type' :: string
  status :: record_status
  record' :: "string option"
  issues :: "string list"
  recommendations :: "string list"

record report =
  email :: string
  domain :: string
  overall_status :: overall_status
  spf :: record_evaluation
  dmarc :: record_evaluation
  dkim :: record_evaluation
  timestamp :: string

subsection \<open>Aggregation (lines 227-238)\<close>

definition overallStatus :: "record_status list \<Rightarrow> overall_status" where
  "overallStatus statuses =
     (let validCount = length (filter (\<lambda>s. s = Valid) statuses);
          missingCount = length (filter (\<lambda>s. s = Missing) statuses)
      in if validCount \<ge> 2 then Pass
         else if missingCount \<ge> 2 then Fail
         else OverallWarning)"

text \<open>"At least two of the three are \<open>x\<close>", written out on the triple.\<close>

definition two_of :: "'a \<Rightarrow> 'a \<Rightarrow> 'a \<Rightarrow> 'a \<Rightarrow> bool" where
  "two_of x a b c = ((a = x \<and> b = x) \<or> (a = x \<and> c = x) \<or> (b = x \<and> c = x))"

subsection \<open>The resolver call (\<^verbatim>\<open>checkDNS\<close>, lines 113-121)\<close>

text \<open>
  What one \<^verbatim>\<open>fetch\<close> of a URL comes to: the fetch rejects (\<open>NetworkError\<close>),
  the body is not JSON (\<open>MalformedBody\<close>: \<^verbatim>\<open>response.json()\<close> rejects), or the
  body parses. A parsed body either has no (or a falsy) \<^verbatim>\<open>Answer\<close> field
  (\<open>Body None\<close>) or carries an array of answers whose \<^verbatim>\<open>data\<close> are strings.
\<close>

datatype response = NetworkError | MalformedBody | Body "raw_answer list option"

type_synonym net = "string \<Rightarrow> response"

definition resolve_url :: "string \<Rightarrow> string \<Rightarrow> string" where
  "resolve_url dname recordType =
     ''https://dns.google/resolve?name='' @ dname @ ''&type='' @ recordType"

text \<open>The \<^verbatim>\<open>catch\<close> of \<^verbatim>\<open>checkDNS\<close> turns both rejections into
  \<^verbatim>\<open>[]\<close>, and \<^verbatim>\<open>data.Answer || []\<close> does the same for a missing field. The
  second component is the log of fetched URLs.\<close>

definition checkDNS ::
  "net \<Rightarrow> string \<Rightarrow> string \<Rightarrow> string list \<Rightarrow> raw_answer list \<times> string list" where
  "checkDNS net dname recordType qlog =
     (let url = resolve_url dname recordType in
      ((case net url of
          NetworkError \<Rightarrow> []
        | MalformedBody \<Rightarrow> []
        | Body None \<Rightarrow> []
        | Body (Some answer) \<Rightarrow> answer),
       qlog @ [url]))"

subsection \<open>Domain (line 132)\<close>

datatype js_error = TypeError

text \<open>\<^verbatim>\<open>email.split('@')[1].toLowerCase()\<close>: the second piece of the split. With
  fewer than two pieces the index gives \<^verbatim>\<open>undefined\<close> and the method call
  throws a \<^verbatim>\<open>TypeError\<close>.\<close>

definition extract_domain :: "string \<Rightarrow> js_error + string" where
  "extract_domain email_in =
     (case split (CHR ''@'') email_in of
        p0 # p1 # ps \<Rightarrow> Inr (toLowerCase p1)
      | _ \<Rightarrow> Inl TypeError)"

subsection \<open>SPF (lines 136-166)\<close>

definition spf_evaluation :: "raw_answer list \<Rightarrow> record_evaluation" where
  "spf_evaluation txtRecords =
     (let spfRecords = filter (\<lambda>r. includes_str (data r) ''v=spf1'') txtRecords in
      if length spfRecords = 0 then
        \<lparr> type' = ''SPF'', status = Missing, record' = None,
          issues = [''No SPF record found''],
          recommendations = [''Add an SPF record to your DNS'',
                             ''Example: v=spf1 include:_spf.google.com ~all''] \<rparr>
      else
        let spfRecord = remove_quotes (data (spfRecords ! 0));
            (iss, recs) =
              (if \<not> includes_str spfRecord ''~all'' \<and> \<not> includes_str spfRecord ''-all''
               then ([''SPF record should end with an 'all' mechanism''],
                     [''Add ~all (softfail) or -all (hardfail) at the end''])
               else ([], []))
        in \<lparr> type' = ''SPF'',
             status = (if length iss = 0 then Valid else Warning),
             record' = Some spfRecord, issues = iss, recommendations = recs \<rparr>)"

subsection \<open>DMARC (lines 170-200)\<close>

definition dmarc_evaluation :: "raw_answer list \<Rightarrow> record_evaluation" where
  "dmarc_evaluation dmarcRecords =
     (let dmarcFound = filter (\<lambda>r. includes_str (data r) ''v=DMARC1'') dmarcRecords in
      if length dmarcFound = 0 then
        \<lparr> type' = ''DMARC'', status = Missing, record' = None,
          issues = [''No DMARC record found''],
          recommendations = [''Add a DMARC record to your DNS'',
            ''Example: v=DMARC1; p=quarantine; rua=mailto:dmarc@yourdomain.com''] \<rparr>
      else
        let dmarcRecord = remove_quotes (data (dmarcFound ! 0));
            (iss, recs) =
              (if includes_str dmarcRecord ''p=none''
               then ([''DMARC policy is set to 'none' - emails won't be protected''],
                     [''Consider upgrading to p=quarantine or p=reject''])
               else ([], []))
        in \<lparr> type' = ''DMARC'',
             status = (if length iss = 0 then Valid else Warning),
             record' = Some dmarcRecord, issues = iss, recommendations = recs \<rparr>)"

subsection \<open>DKIM (lines 203-224)\<close>

definition dkimSelectors :: "string list" where
  "dkimSelectors = [''default'', ''selector1'', ''google'']"

definition dkim_initial :: record_evaluation where
  "dkim_initial =
     \<lparr> type' = ''DKIM'', status = Missing, record' = None,
       issues = [''No DKIM records found with common selectors''],
       recommendations = [''Set up DKIM signing for your email service'',
                          ''Common selectors checked: default, selector1, google''] \<rparr>"

text \<open>The \<^verbatim>\<open>for ... of\<close> loop: one awaited query per selector, in list order, left
  by \<^verbatim>\<open>break\<close> at the first non-empty answer.\<close>

fun dkim_loop ::
  "net \<Rightarrow> string \<Rightarrow> string list \<Rightarrow> record_evaluation \<Rightarrow> string list
     \<Rightarrow> record_evaluation \<times> string list" where
  "dkim_loop net dname [] dkim_ev qlog = (dkim_ev, qlog)"
| "dkim_loop net dname (selector # rest) dkim_ev qlog =
     (let (dkimRecords, qlog') = checkDNS net (selector @ ''._domainkey.'' @ dname) ''TXT'' qlog in
      if length dkimRecords > 0 then
        (\<lparr> type' = ''DKIM'', status = Valid,
           record' = Some (''Selector: '' @ selector @ '' (found)''),
           issues = [], recommendations = [] \<rparr>, qlog')
      else dkim_loop net dname rest dkim_ev qlog')"

subsection \<open>The handler (\<^verbatim>\<open>handleCheck\<close>, lines 123-255)\<close>

text \<open>The \<^verbatim>\<open>try\<close> block, lines 131-248: the report handed to
  \<^verbatim>\<open>setResult\<close>, or the exception thrown, and the log of fetched URLs.\<close>

definition try_block ::
  "net \<Rightarrow> string \<Rightarrow> string \<Rightarrow> string list \<Rightarrow> (js_error + report) \<times> string list" where
  "try_block net now email_in qlog =
     (case extract_domain email_in of
        Inl err \<Rightarrow> (Inl err, qlog)
      | Inr dname \<Rightarrow>
          (let (txtRecords, qlog1) = checkDNS net dname ''TXT'' qlog;
               spf_ev = spf_evaluation txtRecords;
               (dmarcRecords, qlog2) = checkDNS net (''_dmarc.'' @ dname) ''TXT'' qlog1;
               dmarc_ev = dmarc_evaluation dmarcRecords;
               (dkim_ev, qlog3) = dkim_loop net dname dkimSelectors dkim_initial qlog2;
               statuses = [status spf_ev, status dmarc_ev, status dkim_ev]
           in (Inr \<lparr> email = email_in, domain = dname,
                     overall_status = overallStatus statuses,
                     spf = spf_ev, dmarc = dmarc_ev, dkim = dkim_ev,
                     timestamp = now \<rparr>,
               qlog3)))"

text \<open>The component state that the handler writes. The \<^verbatim>\<open>email\<close> state is only
  read, so it is an argument.\<close>

record app_state =
  loading :: bool
  result :: "report option"
  error :: string

definition handleCheck ::
  "net \<Rightarrow> string \<Rightarrow> string \<Rightarrow> app_state \<Rightarrow> string list \<Rightarrow> app_state \<times> string list" where
  "handleCheck net now email_in st qlog =
     (if email_in = [] then (st, qlog)
      else
        let st1 = st\<lparr> loading := True, error := [], result := None \<rparr> in
        (case try_block net now email_in qlog of
           (Inr rep, qlog') \<Rightarrow> (st1\<lparr> result := Some rep, loading := False \<rparr>, qlog')
         | (Inl err, qlog') \<Rightarrow>
             (st1\<lparr> error := ''An error occurred while checking DNS records. Please try again.'',
                   loading := False \<rparr>, qlog')))"

subsection \<open>Notions used in the statements, and example inputs\<close>

text \<open>The loop's test \<^verbatim>\<open>dkimRecords.length > 0\<close> for one selector, and the
  object literal assigned on a hit.\<close>

definition dkim_hit :: "net \<Rightarrow> string \<Rightarrow> string \<Rightarrow> bool" where
  "dkim_hit net dname selector =
     (length (fst (checkDNS net (selector @ ''._domainkey.'' @ dname) ''TXT'' [])) > 0)"

definition dkim_found :: "string \<Rightarrow> record_evaluation" where
  "dkim_found selector =
     \<lparr> type' = ''DKIM'', status = Valid,
       record' = Some (''Selector: '' @ selector @ '' (found)''),
       issues = [], recommendations = [] \<rparr>"

text \<open>A network for the examples: \<open>example.com\<close> publishes a key under the
  selectors \<open>default\<close> and \<open>google\<close>, and nothing else.\<close>

definition example_dkim_net :: net where
  "example_dkim_net url =
     (if url = resolve_url ''default._domainkey.example.com'' ''TXT''
      then Body (Some [\<lparr> name = ''default._domainkey.example.com'', data = ''v=DKIM1; k=rsa; p=A'' \<rparr>])
      else if url = resolve_url ''google._domainkey.example.com'' ''TXT''
      then Body (Some [\<lparr> name = ''google._domainkey.example.com'', data = ''v=DKIM1; k=rsa; p=B'' \<rparr>])
      else Body None)"

text \<open>The three outcomes of a fetch that \<^verbatim>\<open>checkDNS\<close> turns into \<^verbatim>\<open>[]\<close>
  without looking at an answer: a network error, a body that is not JSON, a body without
  an \<^verbatim>\<open>Answer\<close> field.\<close>

definition transport_failed :: "response \<Rightarrow> bool" where
  "transport_failed r =
     (case r of
        NetworkError \<Rightarrow> True
      | MalformedBody \<Rightarrow> True
      | Body None \<Rightarrow> True
      | Body (Some answer) \<Rightarrow> False)"

text \<open>A network on which no name has any record, one on which every fetch fails, and
  the state of the component before the first check.\<close>

definition no_answer_net :: net where
  "no_answer_net url = Body (Some [])"

definition offline_net :: net where
  "offline_net url = NetworkError"

definition idle_state :: app_state where
  "idle_state = \<lparr> loading = False, result = None, error = [] \<rparr>"

text \<open>A state with the timestamp of its report, if it has one, blanked.\<close>

definition without_timestamp :: "app_state \<Rightarrow> app_state" where
  "without_timestamp st =
     st\<lparr> result := map_option (\<lambda>rep. rep\<lparr> timestamp := [] \<rparr>) (result st) \<rparr>"

text \<open>The invariant that the data model states for a record evaluation.\<close>

definition evaluation_invariant :: "record_evaluation \<Rightarrow> bool" where
  "evaluation_invariant ev \<longleftrightarrow>
     (status ev = Missing \<longrightarrow> record' ev = None)
     \<and> (status ev \<in> {Warning, Missing, Invalid} \<longrightarrow> issues ev \<noteq> [])
     \<and> (status ev = Valid \<longrightarrow> issues ev = [])"

text \<open>The specification's wording of the unquoting, for comparison with
  \<open>remove_quotes\<close>: only the quote characters that surround the data are stripped.\<close>

definition strip_surrounding_quotes :: "string \<Rightarrow> string" where
  "strip_surrounding_quotes s =
     rev (dropWhile (\<lambda>c. c = dquote) (rev (dropWhile (\<lambda>c. c = dquote) s)))"

text \<open>An SPF record published as two quoted strings, the way a TXT record longer than
  one string is presented: \<^verbatim>\<open>"v=spf1 include:_spf.example.com" "-all"\<close>.\<close>

definition two_string_spf :: string where
  "two_string_spf =
     [dquote] @ ''v=spf1 include:_spf.example.com'' @ [dquote] @ '' ''
       @ [dquote] @ ''-all'' @ [dquote]"

text \<open>
  Two more networks for \<open>example.com\<close>: one with a key under \<open>selector1\<close> and
  \<open>google\<close> but none under \<open>default\<close>, and one with a key under \<open>google\<close>
  only.
\<close>

definition example_selector1_net :: net where
  "example_selector1_net url =
     (if url = resolve_url ''selector1._domainkey.example.com'' ''TXT''
      then Body (Some [\<lparr> name = ''selector1._domainkey.example.com'', data = ''v=DKIM1; k=rsa; p=C'' \<rparr>])
      else if url = resolve_url ''google._domainkey.example.com'' ''TXT''
      then Body (Some [\<lparr> name = ''google._domainkey.example.com'', data = ''v=DKIM1; k=rsa; p=B'' \<rparr>])
      else Body None)"

definition example_google_net :: net where
  "example_google_net url =
     (if url = resolve_url ''google._domainkey.example.com'' ''TXT''
      then Body (Some [\<lparr> name = ''google._domainkey.example.com'', data = ''v=DKIM1; k=rsa; p=B'' \<rparr>])
      else Body None)"

text \<open>
  A network that answers for the same selectors as \<open>example_dkim_net\<close> but with
  other contents, none of them a key, and whose other fetches fail.
\<close>

definition example_dkim_net_other_keys :: net where
  "example_dkim_net_other_keys url =
     (if url = resolve_url ''default._domainkey.example.com'' ''TXT''
      then Body (Some [\<lparr> name = ''default._domainkey.example.com'', data = ''not a key'' \<rparr>,
                       \<lparr> name = ''default._domainkey.example.com'', data = [] \<rparr>])
      else if url = resolve_url ''google._domainkey.example.com'' ''TXT''
      then Body (Some [\<lparr> name = ''google._domainkey.example.com'', data = ''v=DKIM1; p='' \<rparr>])
      else NetworkError)"

text \<open>
  A DMARC record whose policy value is written between double quotes:
  \<^verbatim>\<open>v=DMARC1; p="none"\<close>.
\<close>

definition quoted_none_dmarc :: string where
  "quoted_none_dmarc = ''v=DMARC1; p='' @ [dquote] @ ''none'' @ [dquote]"

section \<open>Theorems\<close>

subsection \<open>Aggregation\<close>

text \<open>
  Claim C1. The overall status is a function of the three record statuses alone: it is
  pass when at least two of them are valid, otherwise fail when at least two are missing,
  otherwise warning. It is the same for all six orders of the three statuses, and
  (valid, valid, missing) gives pass, (valid, missing, missing) fail,
  (warning, valid, missing) warning and (warning, warning, warning) warning.
\<close>

theorem C1_aggregator:
  "overallStatus [a, b, c] =
     (if two_of Valid a b c then Pass
      else if two_of Missing a b c then Fail
      else OverallWarning)
   \<and> overallStatus [a, c, b] = overallStatus [a, b, c]
   \<and> overallStatus [b, a, c] = overallStatus [a, b, c]
   \<and> overallStatus [b, c, a] = overallStatus [a, b, c]
   \<and> overallStatus [c, a, b] = overallStatus [a, b, c]
   \<and> overallStatus [c, b, a] = overallStatus [a, b, c]
   \<and> overallStatus [Valid, Valid, Missing] = Pass
   \<and> overallStatus [Valid, Missing, Missing] = Fail
   \<and> overallStatus [Warning, Valid, Missing] = OverallWarning
   \<and> overallStatus [Warning, Warning, Warning] = OverallWarning"
  by (cases a; cases b; cases c) (simp_all add: overallStatus_def two_of_def)

subsection \<open>Substrings, splitting and searching\<close>

lemma includes_str_sublist: "includes_str s t \<longleftrightarrow> sublist t s"
  by (induction s) (simp_all add: sublist_Cons_right)

lemma sublist_filter_keep:
  assumes "sublist t s" and "\<forall>c\<in>set t. P c"
  shows "sublist t (filter P s)"
proof -
  from assms(1) obtain ps ss where s: "s = ps @ t @ ss"
    by (auto simp: sublist_def)
  from assms(2) have "filter P t = t"
    by (simp add: filter_id_conv)
  with s have "filter P s = filter P ps @ t @ filter P ss"
    by simp
  then show ?thesis
    unfolding sublist_def by blast
qed

lemma includes_str_remove_quotes:
  "includes_str s t \<Longrightarrow> dquote \<notin> set t \<Longrightarrow> includes_str (remove_quotes s) t"
  unfolding includes_str_sublist remove_quotes_def
  by (rule sublist_filter_keep) auto

lemma find_None_filter: "find P xs = None \<longleftrightarrow> filter P xs = []"
  by (induction xs) auto

lemma find_Some_filter: "find P xs = Some x \<Longrightarrow> \<exists>rest. filter P xs = x # rest"
  by (induction xs) (auto split: if_splits)

lemma toLowerCase_examples:
  "toLowerCase ''Ex.COM'' = ''ex.com''"
  "lower_char (CHR 0xC9) = CHR 0xE9"
  "lower_char (CHR 0xD7) = CHR 0xD7"
  "lower_char (CHR 0xDF) = CHR 0xDF"
  by code_simp+

lemma split_no_sep: "sep \<notin> set s \<Longrightarrow> split sep s = [s]"
  by (induction s) auto

lemma split_nonempty: "split sep s \<noteq> []"
  by (induction s) (auto split: list.splits)

lemma split_first: "sep \<notin> set p \<Longrightarrow> split sep (p @ sep # rest) = p # split sep rest"
  by (induction p) (auto split: list.splits simp: split_nonempty)

subsection \<open>SPF and DMARC\<close>

lemma spf_evaluation_none:
  assumes "find (\<lambda>r. includes_str (data r) ''v=spf1'') txtRecords = None"
  shows "spf_evaluation txtRecords =
     \<lparr> type' = ''SPF'', status = Missing, record' = None,
       issues = [''No SPF record found''],
       recommendations = [''Add an SPF record to your DNS'',
                          ''Example: v=spf1 include:_spf.google.com ~all''] \<rparr>"
  using assms by (simp add: spf_evaluation_def find_None_filter)

lemma spf_evaluation_some:
  assumes "find (\<lambda>r. includes_str (data r) ''v=spf1'') txtRecords = Some r"
  shows "spf_evaluation txtRecords =
     (if \<not> includes_str (remove_quotes (data r)) ''~all''
         \<and> \<not> includes_str (remove_quotes (data r)) ''-all''
      then \<lparr> type' = ''SPF'', status = Warning, record' = Some (remove_quotes (data r)),
             issues = [''SPF record should end with an 'all' mechanism''],
             recommendations = [''Add ~all (softfail) or -all (hardfail) at the end''] \<rparr>
      else \<lparr> type' = ''SPF'', status = Valid, record' = Some (remove_quotes (data r)),
             issues = [], recommendations = [] \<rparr>)"
proof -
  from find_Some_filter [OF assms] obtain rest
    where "filter (\<lambda>r. includes_str (data r) ''v=spf1'') txtRecords = r # rest" ..
  then show ?thesis
    by (simp add: spf_evaluation_def)
qed

lemma dmarc_evaluation_none:
  assumes "find (\<lambda>r. includes_str (data r) ''v=DMARC1'') dmarcRecords = None"
  shows "dmarc_evaluation dmarcRecords =
     \<lparr> type' = ''DMARC'', status = Missing, record' = None,
       issues = [''No DMARC record found''],
       recommendations = [''Add a DMARC record to your DNS'',
         ''Example: v=DMARC1; p=quarantine; rua=mailto:dmarc@yourdomain.com''] \<rparr>"
  using assms by (simp add: dmarc_evaluation_def find_None_filter)

lemma dmarc_evaluation_some:
  assumes "find (\<lambda>r. includes_str (data r) ''v=DMARC1'') dmarcRecords = Some r"
  shows "dmarc_evaluation dmarcRecords =
     (if includes_str (remove_quotes (data r)) ''p=none''
      then \<lparr> type' = ''DMARC'', status = Warning, record' = Some (remove_quotes (data r)),
             issues = [''DMARC policy is set to 'none' - emails won't be protected''],
             recommendations = [''Consider upgrading to p=quarantine or p=reject''] \<rparr>
      else \<lparr> type' = ''DMARC'', status = Valid, record' = Some (remove_quotes (data r)),
             issues = [], recommendations = [] \<rparr>)"
proof -
  from find_Some_filter [OF assms] obtain rest
    where "filter (\<lambda>r. includes_str (data r) ''v=DMARC1'') dmarcRecords = r # rest" ..
  then show ?thesis
    by (simp add: dmarc_evaluation_def)
qed

text \<open>
  Claim C3. For every list of TXT answers of the domain: when no answer's data contains
  \<open>v=spf1\<close>, the SPF evaluation is missing, with no record, the issue
  "No SPF record found" and the two recommendations. Otherwise the first answer containing
  \<open>v=spf1\<close> is selected; when its record (the data without its quotes) contains
  neither \<open>~all\<close> nor \<open>-all\<close> the status is warning with the issue and the
  recommendation about the \<open>all\<close> mechanism, and otherwise the status is valid with
  no issue and no recommendation.
\<close>

theorem C3_spf:
  "((\<forall>a\<in>set txtRecords. \<not> includes_str (data a) ''v=spf1'') \<longrightarrow>
      spf_evaluation txtRecords =
        \<lparr> type' = ''SPF'', status = Missing, record' = None,
          issues = [''No SPF record found''],
          recommendations = [''Add an SPF record to your DNS'',
                             ''Example: v=spf1 include:_spf.google.com ~all''] \<rparr>)
   \<and> (find (\<lambda>a. includes_str (data a) ''v=spf1'') txtRecords = Some r \<longrightarrow>
        \<not> includes_str (remove_quotes (data r)) ''~all'' \<longrightarrow>
        \<not> includes_str (remove_quotes (data r)) ''-all'' \<longrightarrow>
          status (spf_evaluation txtRecords) = Warning
          \<and> issues (spf_evaluation txtRecords) =
              [''SPF record should end with an 'all' mechanism'']
          \<and> recommendations (spf_evaluation txtRecords) =
              [''Add ~all (softfail) or -all (hardfail) at the end''])
   \<and> (find (\<lambda>a. includes_str (data a) ''v=spf1'') txtRecords = Some r \<longrightarrow>
        (includes_str (remove_quotes (data r)) ''~all''
          \<or> includes_str (remove_quotes (data r)) ''-all'') \<longrightarrow>
          status (spf_evaluation txtRecords) = Valid
          \<and> issues (spf_evaluation txtRecords) = []
          \<and> recommendations (spf_evaluation txtRecords) = [])"
proof (intro conjI impI)
  assume "\<forall>a\<in>set txtRecords. \<not> includes_str (data a) ''v=spf1''"
  then have "find (\<lambda>a. includes_str (data a) ''v=spf1'') txtRecords = None"
    by (simp add: find_None_iff)
  then show "spf_evaluation txtRecords =
        \<lparr> type' = ''SPF'', status = Missing, record' = None,
          issues = [''No SPF record found''],
          recommendations = [''Add an SPF record to your DNS'',
                             ''Example: v=spf1 include:_spf.google.com ~all''] \<rparr>"
    by (rule spf_evaluation_none)
qed (simp_all add: spf_evaluation_some)

text \<open>
  The three cases of C3 on concrete answers: no SPF record, an SPF record without an
  \<open>all\<close> mechanism, and \<open>v=spf1 -all\<close>.
\<close>

theorem C3_spf_witness:
  "\<not> includes_str ''google-site-verification=abc'' ''v=spf1''
   \<and> status (spf_evaluation
         [\<lparr> name = ''example.com'', data = ''google-site-verification=abc'' \<rparr>]) = Missing
   \<and> find (\<lambda>a. includes_str (data a) ''v=spf1'')
         [\<lparr> name = ''example.com'', data = ''v=spf1 include:_spf.google.com'' \<rparr>]
       = Some \<lparr> name = ''example.com'', data = ''v=spf1 include:_spf.google.com'' \<rparr>
   \<and> status (spf_evaluation
         [\<lparr> name = ''example.com'', data = ''v=spf1 include:_spf.google.com'' \<rparr>]) = Warning
   \<and> find (\<lambda>a. includes_str (data a) ''v=spf1'')
         [\<lparr> name = ''example.com'', data = ''v=spf1 -all'' \<rparr>]
       = Some \<lparr> name = ''example.com'', data = ''v=spf1 -all'' \<rparr>
   \<and> status (spf_evaluation [\<lparr> name = ''example.com'', data = ''v=spf1 -all'' \<rparr>]) = Valid
   \<and> issues (spf_evaluation [\<lparr> name = ''example.com'', data = ''v=spf1 -all'' \<rparr>]) = []"
  using
    C3_spf [of "[\<lparr> name = ''example.com'', data = ''google-site-verification=abc'' \<rparr>]"]
    C3_spf [of "[\<lparr> name = ''example.com'', data = ''v=spf1 include:_spf.google.com'' \<rparr>]"
               "\<lparr> name = ''example.com'', data = ''v=spf1 include:_spf.google.com'' \<rparr>"]
    C3_spf [of "[\<lparr> name = ''example.com'', data = ''v=spf1 -all'' \<rparr>]"
               "\<lparr> name = ''example.com'', data = ''v=spf1 -all'' \<rparr>"]
  by (simp add: remove_quotes_def dquote_def)

text \<open>
  Claim C4, as the code has it. For every list of TXT answers of \<open>_dmarc.\<close> + domain:
  when no answer's data contains \<open>v=DMARC1\<close>, the DMARC evaluation is missing with the
  issue "No DMARC record found" and the two recommendations. Otherwise the first matching
  answer is taken and every double-quote character is removed from its data; when the
  result contains \<open>p=none\<close>, and so whenever the data itself contains it, the status is
  warning with the issue and the recommendation about the policy; when the result does not
  contain it, the status is valid.
\<close>

theorem C4_dmarc:
  "((\<forall>a\<in>set dmarcRecords. \<not> includes_str (data a) ''v=DMARC1'') \<longrightarrow>
      dmarc_evaluation dmarcRecords =
        \<lparr> type' = ''DMARC'', status = Missing, record' = None,
          issues = [''No DMARC record found''],
          recommendations = [''Add a DMARC record to your DNS'',
            ''Example: v=DMARC1; p=quarantine; rua=mailto:dmarc@yourdomain.com''] \<rparr>)
   \<and> (find (\<lambda>a. includes_str (data a) ''v=DMARC1'') dmarcRecords = Some r \<longrightarrow>
        includes_str (filter (\<lambda>c. c \<noteq> CHR 0x22) (data r)) ''p=none'' \<longrightarrow>
          status (dmarc_evaluation dmarcRecords) = Warning
          \<and> issues (dmarc_evaluation dmarcRecords) =
              [''DMARC policy is set to 'none' - emails won't be protected'']
          \<and> recommendations (dmarc_evaluation dmarcRecords) =
              [''Consider upgrading to p=quarantine or p=reject''])
   \<and> (find (\<lambda>a. includes_str (data a) ''v=DMARC1'') dmarcRecords = Some r \<longrightarrow>
        includes_str (data r) ''p=none'' \<longrightarrow>
          status (dmarc_evaluation dmarcRecords) = Warning
          \<and> issues (dmarc_evaluation dmarcRecords) =
              [''DMARC policy is set to 'none' - emails won't be protected'']
          \<and> recommendations (dmarc_evaluation dmarcRecords) =
              [''Consider upgrading to p=quarantine or p=reject''])
   \<and> (find (\<lambda>a. includes_str (data a) ''v=DMARC1'') dmarcRecords = Some r \<longrightarrow>
        \<not> includes_str (filter (\<lambda>c. c \<noteq> CHR 0x22) (data r)) ''p=none'' \<longrightarrow>
          status (dmarc_evaluation dmarcRecords) = Valid
          \<and> issues (dmarc_evaluation dmarcRecords) = []
          \<and> recommendations (dmarc_evaluation dmarcRecords) = [])"
proof -
  have unq: "filter (\<lambda>c. c \<noteq> CHR 0x22) s = remove_quotes s" for s
    by (simp add: remove_quotes_def dquote_def)
  have raw: "includes_str (remove_quotes s) ''p=none''" if "includes_str s ''p=none''" for s
    using that by (rule includes_str_remove_quotes) (simp add: dquote_def)
  show ?thesis
  proof (intro conjI impI)
    assume "\<forall>a\<in>set dmarcRecords. \<not> includes_str (data a) ''v=DMARC1''"
    then have "find (\<lambda>a. includes_str (data a) ''v=DMARC1'') dmarcRecords = None"
      by (simp add: find_None_iff)
    then show "dmarc_evaluation dmarcRecords =
        \<lparr> type' = ''DMARC'', status = Missing, record' = None,
          issues = [''No DMARC record found''],
          recommendations = [''Add a DMARC record to your DNS'',
            ''Example: v=DMARC1; p=quarantine; rua=mailto:dmarc@yourdomain.com''] \<rparr>"
      by (rule dmarc_evaluation_none)
  qed (simp_all add: dmarc_evaluation_some unq raw)
qed

text \<open>
  The cases of C4 on concrete answers: no DMARC record, policy \<open>none\<close>, and policy
  \<open>reject\<close>.
\<close>

theorem C4_dmarc_witness:
  "\<not> includes_str ''unrelated'' ''v=DMARC1''
   \<and> status (dmarc_evaluation [\<lparr> name = ''_dmarc.example.com'', data = ''unrelated'' \<rparr>])
       = Missing
   \<and> find (\<lambda>a. includes_str (data a) ''v=DMARC1'')
         [\<lparr> name = ''_dmarc.example.com'', data = ''v=DMARC1; p=none; rua=mailto:x@y.com'' \<rparr>]
       = Some \<lparr> name = ''_dmarc.example.com'', data = ''v=DMARC1; p=none; rua=mailto:x@y.com'' \<rparr>
   \<and> includes_str ''v=DMARC1; p=none; rua=mailto:x@y.com'' ''p=none''
   \<and> includes_str (filter (\<lambda>c. c \<noteq> CHR 0x22) ''v=DMARC1; p=none; rua=mailto:x@y.com'')
         ''p=none''
   \<and> status (dmarc_evaluation
         [\<lparr> name = ''_dmarc.example.com'', data = ''v=DMARC1; p=none; rua=mailto:x@y.com'' \<rparr>])
       = Warning
   \<and> find (\<lambda>a. includes_str (data a) ''v=DMARC1'')
         [\<lparr> name = ''_dmarc.example.com'', data = ''v=DMARC1; p=reject'' \<rparr>]
       = Some \<lparr> name = ''_dmarc.example.com'', data = ''v=DMARC1; p=reject'' \<rparr>
   \<and> \<not> includes_str (filter (\<lambda>c. c \<noteq> CHR 0x22) ''v=DMARC1; p=reject'') ''p=none''
   \<and> status (dmarc_evaluation
         [\<lparr> name = ''_dmarc.example.com'', data = ''v=DMARC1; p=reject'' \<rparr>]) = Valid"
  using
    C4_dmarc [of "[\<lparr> name = ''_dmarc.example.com'', data = ''unrelated'' \<rparr>]"]
    C4_dmarc [of "[\<lparr> name = ''_dmarc.example.com'',
                     data = ''v=DMARC1; p=none; rua=mailto:x@y.com'' \<rparr>]"
                 "\<lparr> name = ''_dmarc.example.com'',
                     data = ''v=DMARC1; p=none; rua=mailto:x@y.com'' \<rparr>"]
    C4_dmarc [of "[\<lparr> name = ''_dmarc.example.com'', data = ''v=DMARC1; p=reject'' \<rparr>]"
                 "\<lparr> name = ''_dmarc.example.com'', data = ''v=DMARC1; p=reject'' \<rparr>"]
  by simp

text \<open>
  The claim C4 as stated fails on \<^verbatim>\<open>v=DMARC1; p="none"\<close>: the first matching
  answer does not contain \<open>p=none\<close>, with or without its surrounding quotes, and yet
  the status is warning and not valid, because the test is made after the quotes are
  removed.
\<close>

theorem C4_counterexample:
  "includes_str quoted_none_dmarc ''v=DMARC1''
   \<and> \<not> includes_str quoted_none_dmarc ''p=none''
   \<and> \<not> includes_str (strip_surrounding_quotes quoted_none_dmarc) ''p=none''
   \<and> dmarc_evaluation [\<lparr> name = ''_dmarc.example.com'', data = quoted_none_dmarc \<rparr>] =
        \<lparr> type' = ''DMARC'', status = Warning, record' = Some ''v=DMARC1; p=none'',
          issues = [''DMARC policy is set to 'none' - emails won't be protected''],
          recommendations = [''Consider upgrading to p=quarantine or p=reject''] \<rparr>
   \<and> status (dmarc_evaluation [\<lparr> name = ''_dmarc.example.com'', data = quoted_none_dmarc \<rparr>])
       \<noteq> Valid"
  by (simp add: dmarc_evaluation_def quoted_none_dmarc_def strip_surrounding_quotes_def
      remove_quotes_def dquote_def)

text \<open>
  Claim C10. The policy test is a substring search: whenever the data of the selected
  DMARC answer contains \<open>p=none\<close> anywhere, the evaluation is warning. The record
  \<open>v=DMARC1; p=reject; sp=none\<close> contains it inside \<open>sp=none\<close> and is classified
  warning although its policy tag is \<open>p=reject\<close>.
\<close>

theorem C10_dmarc_substring:
  "(find (\<lambda>a. includes_str (data a) ''v=DMARC1'') dmarcRecords = Some r \<longrightarrow>
      includes_str (data r) ''p=none'' \<longrightarrow>
        status (dmarc_evaluation dmarcRecords) = Warning)
   \<and> includes_str ''v=DMARC1; p=reject; sp=none'' ''p=none''
   \<and> status (dmarc_evaluation [\<lparr> name = n, data = ''v=DMARC1; p=reject; sp=none'' \<rparr>])
       = Warning"
proof (intro conjI impI)
  assume found: "find (\<lambda>a. includes_str (data a) ''v=DMARC1'') dmarcRecords = Some r"
    and policy: "includes_str (data r) ''p=none''"
  have "dquote \<notin> set ''p=none''"
    by (simp add: dquote_def)
  with policy have "includes_str (remove_quotes (data r)) ''p=none''"
    by (rule includes_str_remove_quotes)
  with found show "status (dmarc_evaluation dmarcRecords) = Warning"
    by (simp add: dmarc_evaluation_some)
next
  show "includes_str ''v=DMARC1; p=reject; sp=none'' ''p=none''"
    by simp
next
  have "find (\<lambda>a. includes_str (data a) ''v=DMARC1'')
          [\<lparr> name = n, data = ''v=DMARC1; p=reject; sp=none'' \<rparr>]
        = Some \<lparr> name = n, data = ''v=DMARC1; p=reject; sp=none'' \<rparr>"
    by simp
  then show "status (dmarc_evaluation [\<lparr> name = n, data = ''v=DMARC1; p=reject; sp=none'' \<rparr>])
       = Warning"
    by (simp add: dmarc_evaluation_some remove_quotes_def dquote_def)
qed

text \<open>
  C10 on the record \<open>v=DMARC1; p=quarantine; sp=none\<close>.
\<close>

theorem C10_dmarc_substring_witness:
  "find (\<lambda>a. includes_str (data a) ''v=DMARC1'')
      [\<lparr> name = ''_dmarc.example.com'', data = ''v=DMARC1; p=quarantine; sp=none'' \<rparr>]
    = Some \<lparr> name = ''_dmarc.example.com'', data = ''v=DMARC1; p=quarantine; sp=none'' \<rparr>
   \<and> includes_str ''v=DMARC1; p=quarantine; sp=none'' ''p=none''
   \<and> status (dmarc_evaluation
        [\<lparr> name = ''_dmarc.example.com'', data = ''v=DMARC1; p=quarantine; sp=none'' \<rparr>])
       = Warning"
  using C10_dmarc_substring
    [of "[\<lparr> name = ''_dmarc.example.com'', data = ''v=DMARC1; p=quarantine; sp=none'' \<rparr>]"
        "\<lparr> name = ''_dmarc.example.com'', data = ''v=DMARC1; p=quarantine; sp=none'' \<rparr>"]
  by simp

subsection \<open>DKIM\<close>

lemma checkDNS_fst: "fst (checkDNS net dname recordType qlog) = fst (checkDNS net dname recordType [])"
  by (simp add: checkDNS_def Let_def)

lemma checkDNS_snd: "snd (checkDNS net dname recordType qlog) = qlog @ [resolve_url dname recordType]"
  by (simp add: checkDNS_def Let_def)

lemma dkim_loop_fst:
  "fst (dkim_loop net dname selectors ev qlog) =
     (case find (dkim_hit net dname) selectors of
        None \<Rightarrow> ev
      | Some selector \<Rightarrow> dkim_found selector)"
proof (induction selectors arbitrary: qlog)
  case Nil
  show ?case by simp
next
  case (Cons selector rest)
  obtain recs q' where c: "checkDNS net (selector @ ''._domainkey.'' @ dname) ''TXT'' qlog = (recs, q')"
    by (cases "checkDNS net (selector @ ''._domainkey.'' @ dname) ''TXT'' qlog")
  have hit: "dkim_hit net dname selector \<longleftrightarrow> length recs > 0"
    using c checkDNS_fst [of net "selector @ ''._domainkey.'' @ dname" "''TXT''" qlog]
    by (simp add: dkim_hit_def)
  show ?case
    using c hit Cons.IH [of q'] by (simp add: dkim_found_def)
qed

lemma dkim_loop_snd:
  "snd (dkim_loop net dname selectors ev qlog) =
     qlog @ map (\<lambda>s. resolve_url (s @ ''._domainkey.'' @ dname) ''TXT'')
       (takeWhile (\<lambda>s. \<not> dkim_hit net dname s) selectors
        @ (case find (dkim_hit net dname) selectors of None \<Rightarrow> [] | Some s \<Rightarrow> [s]))"
proof (induction selectors arbitrary: qlog)
  case Nil
  show ?case by simp
next
  case (Cons selector rest)
  obtain recs q' where c: "checkDNS net (selector @ ''._domainkey.'' @ dname) ''TXT'' qlog = (recs, q')"
    by (cases "checkDNS net (selector @ ''._domainkey.'' @ dname) ''TXT'' qlog")
  have hit: "dkim_hit net dname selector \<longleftrightarrow> length recs > 0"
    using c checkDNS_fst [of net "selector @ ''._domainkey.'' @ dname" "''TXT''" qlog]
    by (simp add: dkim_hit_def)
  have q': "q' = qlog @ [resolve_url (selector @ ''._domainkey.'' @ dname) ''TXT'']"
    using c checkDNS_snd [of net "selector @ ''._domainkey.'' @ dname" "''TXT''" qlog]
    by simp
  show ?case
    using c hit q' Cons.IH [of q'] by simp
qed

lemma find_cong_set: "(\<forall>x\<in>set xs. P x = Q x) \<Longrightarrow> find P xs = find Q xs"
  by (induction xs) auto

lemma dkim_loop_default:
  assumes "dkim_hit net dname ''default''"
  shows "dkim_loop net dname dkimSelectors dkim_initial qlog =
     (dkim_found ''default'',
      qlog @ [resolve_url (''default'' @ ''._domainkey.'' @ dname) ''TXT''])"
  using assms unfolding prod_eq_iff dkim_loop_fst dkim_loop_snd
  by (simp add: dkimSelectors_def)

lemma dkim_loop_selector1:
  assumes "\<not> dkim_hit net dname ''default''" and "dkim_hit net dname ''selector1''"
  shows "dkim_loop net dname dkimSelectors dkim_initial qlog =
     (dkim_found ''selector1'',
      qlog @ [resolve_url (''default'' @ ''._domainkey.'' @ dname) ''TXT'',
              resolve_url (''selector1'' @ ''._domainkey.'' @ dname) ''TXT''])"
  using assms unfolding prod_eq_iff dkim_loop_fst dkim_loop_snd
  by (simp add: dkimSelectors_def)

lemma dkim_loop_google:
  assumes "\<not> dkim_hit net dname ''default''" and "\<not> dkim_hit net dname ''selector1''"
    and "dkim_hit net dname ''google''"
  shows "dkim_loop net dname dkimSelectors dkim_initial qlog =
     (dkim_found ''google'',
      qlog @ [resolve_url (''default'' @ ''._domainkey.'' @ dname) ''TXT'',
              resolve_url (''selector1'' @ ''._domainkey.'' @ dname) ''TXT'',
              resolve_url (''google'' @ ''._domainkey.'' @ dname) ''TXT''])"
  using assms unfolding prod_eq_iff dkim_loop_fst dkim_loop_snd
  by (simp add: dkimSelectors_def)

lemma dkim_loop_none:
  assumes "\<not> dkim_hit net dname ''default''" and "\<not> dkim_hit net dname ''selector1''"
    and "\<not> dkim_hit net dname ''google''"
  shows "dkim_loop net dname dkimSelectors dkim_initial qlog =
     (dkim_initial,
      qlog @ [resolve_url (''default'' @ ''._domainkey.'' @ dname) ''TXT'',
              resolve_url (''selector1'' @ ''._domainkey.'' @ dname) ''TXT'',
              resolve_url (''google'' @ ''._domainkey.'' @ dname) ''TXT''])"
  using assms unfolding prod_eq_iff dkim_loop_fst dkim_loop_snd
  by (simp add: dkimSelectors_def)

text \<open>
  Claim C2. The selector list is \<open>["default", "selector1", "google"]\<close>, and for every
  network the DKIM loop selects the first selector of it, in that order, whose query has
  at least one answer: the evaluation is valid with the record
  \<open>"Selector: " + selector + " (found)"\<close>, and the queries issued are those of the
  selectors before it and its own, one after the other. Case by case: \<open>default\<close> wins
  whenever it has an answer (so also when \<open>google\<close> has one too), after one query;
  \<open>selector1\<close> wins when \<open>default\<close> has none, after two queries, whatever
  \<open>google\<close> has; \<open>google\<close> wins only when the other two have none, after three
  queries; when none has an answer the evaluation stays the initial, missing one. Only
  whether each answer list is empty matters: two networks that agree on that for the three
  selectors give the same evaluation, whatever the answers contain.
\<close>

theorem C2_dkim_priority:
  "dkimSelectors = [''default'', ''selector1'', ''google'']
   \<and> (find (dkim_hit net dname) dkimSelectors = Some selector \<longrightarrow>
      fst (dkim_loop net dname dkimSelectors dkim_initial qlog) =
        \<lparr> type' = ''DKIM'', status = Valid,
          record' = Some (''Selector: '' @ selector @ '' (found)''),
          issues = [], recommendations = [] \<rparr>
      \<and> snd (dkim_loop net dname dkimSelectors dkim_initial qlog) =
          qlog @ map (\<lambda>s. resolve_url (s @ ''._domainkey.'' @ dname) ''TXT'')
                   (takeWhile (\<lambda>s. \<not> dkim_hit net dname s) dkimSelectors @ [selector]))
   \<and> (dkim_hit net dname ''default'' \<longrightarrow>
        dkim_loop net dname dkimSelectors dkim_initial qlog =
          (\<lparr> type' = ''DKIM'', status = Valid,
             record' = Some ''Selector: default (found)'',
             issues = [], recommendations = [] \<rparr>,
           qlog @ [resolve_url (''default._domainkey.'' @ dname) ''TXT'']))
   \<and> (\<not> dkim_hit net dname ''default'' \<longrightarrow> dkim_hit net dname ''selector1'' \<longrightarrow>
        dkim_loop net dname dkimSelectors dkim_initial qlog =
          (\<lparr> type' = ''DKIM'', status = Valid,
             record' = Some ''Selector: selector1 (found)'',
             issues = [], recommendations = [] \<rparr>,
           qlog @ [resolve_url (''default._domainkey.'' @ dname) ''TXT'',
                   resolve_url (''selector1._domainkey.'' @ dname) ''TXT'']))
   \<and> (\<not> dkim_hit net dname ''default'' \<longrightarrow> \<not> dkim_hit net dname ''selector1'' \<longrightarrow>
        dkim_hit net dname ''google'' \<longrightarrow>
        dkim_loop net dname dkimSelectors dkim_initial qlog =
          (\<lparr> type' = ''DKIM'', status = Valid,
             record' = Some ''Selector: google (found)'',
             issues = [], recommendations = [] \<rparr>,
           qlog @ [resolve_url (''default._domainkey.'' @ dname) ''TXT'',
                   resolve_url (''selector1._domainkey.'' @ dname) ''TXT'',
                   resolve_url (''google._domainkey.'' @ dname) ''TXT'']))
   \<and> (\<not> dkim_hit net dname ''default'' \<longrightarrow> \<not> dkim_hit net dname ''selector1'' \<longrightarrow>
        \<not> dkim_hit net dname ''google'' \<longrightarrow>
        dkim_loop net dname dkimSelectors dkim_initial qlog =
          (dkim_initial,
           qlog @ [resolve_url (''default._domainkey.'' @ dname) ''TXT'',
                   resolve_url (''selector1._domainkey.'' @ dname) ''TXT'',
                   resolve_url (''google._domainkey.'' @ dname) ''TXT'']))
   \<and> (dkim_hit net dname ''default'' \<longrightarrow> dkim_hit net dname ''google'' \<longrightarrow>
        record' (fst (dkim_loop net dname dkimSelectors dkim_initial qlog)) =
          Some ''Selector: default (found)'')
   \<and> ((\<forall>s\<in>set dkimSelectors. dkim_hit net dname s = dkim_hit net2 dname s) \<longrightarrow>
        fst (dkim_loop net dname dkimSelectors dkim_initial qlog) =
        fst (dkim_loop net2 dname dkimSelectors dkim_initial qlog))"
proof (intro conjI impI)
  show "dkimSelectors = [''default'', ''selector1'', ''google'']"
    by (rule dkimSelectors_def)
next
  assume "find (dkim_hit net dname) dkimSelectors = Some selector"
  then show "fst (dkim_loop net dname dkimSelectors dkim_initial qlog) =
        \<lparr> type' = ''DKIM'', status = Valid,
          record' = Some (''Selector: '' @ selector @ '' (found)''),
          issues = [], recommendations = [] \<rparr>"
    and "snd (dkim_loop net dname dkimSelectors dkim_initial qlog) =
          qlog @ map (\<lambda>s. resolve_url (s @ ''._domainkey.'' @ dname) ''TXT'')
                   (takeWhile (\<lambda>s. \<not> dkim_hit net dname s) dkimSelectors @ [selector])"
    by (simp_all add: dkim_loop_fst dkim_loop_snd dkim_found_def)
next
  assume "dkim_hit net dname ''default''"
  then show "dkim_loop net dname dkimSelectors dkim_initial qlog =
          (\<lparr> type' = ''DKIM'', status = Valid,
             record' = Some ''Selector: default (found)'',
             issues = [], recommendations = [] \<rparr>,
           qlog @ [resolve_url (''default._domainkey.'' @ dname) ''TXT''])"
    by (simp add: dkim_loop_default dkim_found_def)
next
  assume "\<not> dkim_hit net dname ''default''" and "dkim_hit net dname ''selector1''"
  then show "dkim_loop net dname dkimSelectors dkim_initial qlog =
          (\<lparr> type' = ''DKIM'', status = Valid,
             record' = Some ''Selector: selector1 (found)'',
             issues = [], recommendations = [] \<rparr>,
           qlog @ [resolve_url (''default._domainkey.'' @ dname) ''TXT'',
                   resolve_url (''selector1._domainkey.'' @ dname) ''TXT''])"
    by (simp add: dkim_loop_selector1 dkim_found_def)
next
  assume "\<not> dkim_hit net dname ''default''" and "\<not> dkim_hit net dname ''selector1''"
    and "dkim_hit net dname ''google''"
  then show "dkim_loop net dname dkimSelectors dkim_initial qlog =
          (\<lparr> type' = ''DKIM'', status = Valid,
             record' = Some ''Selector: google (found)'',
             issues = [], recommendations = [] \<rparr>,
           qlog @ [resolve_url (''default._domainkey.'' @ dname) ''TXT'',
                   resolve_url (''selector1._domainkey.'' @ dname) ''TXT'',
                   resolve_url (''google._domainkey.'' @ dname) ''TXT''])"
    by (simp add: dkim_loop_google dkim_found_def)
next
  assume "\<not> dkim_hit net dname ''default''" and "\<not> dkim_hit net dname ''selector1''"
    and "\<not> dkim_hit net dname ''google''"
  then show "dkim_loop net dname dkimSelectors dkim_initial qlog =
          (dkim_initial,
           qlog @ [resolve_url (''default._domainkey.'' @ dname) ''TXT'',
                   resolve_url (''selector1._domainkey.'' @ dname) ''TXT'',
                   resolve_url (''google._domainkey.'' @ dname) ''TXT''])"
    by (simp add: dkim_loop_none)
next
  assume "dkim_hit net dname ''default''"
  then show "record' (fst (dkim_loop net dname dkimSelectors dkim_initial qlog)) =
          Some ''Selector: default (found)''"
    by (simp add: dkim_loop_default dkim_found_def)
next
  assume "\<forall>s\<in>set dkimSelectors. dkim_hit net dname s = dkim_hit net2 dname s"
  then have "find (dkim_hit net dname) dkimSelectors = find (dkim_hit net2 dname) dkimSelectors"
    by (rule find_cong_set)
  then show "fst (dkim_loop net dname dkimSelectors dkim_initial qlog) =
        fst (dkim_loop net2 dname dkimSelectors dkim_initial qlog)"
    by (simp add: dkim_loop_fst)
qed

lemma example_dkim_net_default: "dkim_hit example_dkim_net ''example.com'' ''default''"
  by (simp add: dkim_hit_def checkDNS_def example_dkim_net_def resolve_url_def)

lemma example_dkim_net_selector1: "\<not> dkim_hit example_dkim_net ''example.com'' ''selector1''"
  by (simp add: dkim_hit_def checkDNS_def example_dkim_net_def resolve_url_def)

lemma example_dkim_net_google: "dkim_hit example_dkim_net ''example.com'' ''google''"
  by (simp add: dkim_hit_def checkDNS_def example_dkim_net_def resolve_url_def)

lemma example_selector1_net_hits:
  "\<not> dkim_hit example_selector1_net ''example.com'' ''default''"
  "dkim_hit example_selector1_net ''example.com'' ''selector1''"
  "dkim_hit example_selector1_net ''example.com'' ''google''"
  by (simp_all add: dkim_hit_def checkDNS_def example_selector1_net_def resolve_url_def)

lemma example_google_net_hits:
  "\<not> dkim_hit example_google_net ''example.com'' ''default''"
  "\<not> dkim_hit example_google_net ''example.com'' ''selector1''"
  "dkim_hit example_google_net ''example.com'' ''google''"
  by (simp_all add: dkim_hit_def checkDNS_def example_google_net_def resolve_url_def)

lemma example_dkim_net_other_keys_hits:
  "dkim_hit example_dkim_net_other_keys ''example.com'' ''default''"
  "\<not> dkim_hit example_dkim_net_other_keys ''example.com'' ''selector1''"
  "dkim_hit example_dkim_net_other_keys ''example.com'' ''google''"
  by (simp_all add: dkim_hit_def checkDNS_def example_dkim_net_other_keys_def resolve_url_def)

lemma offline_net_hits: "\<not> dkim_hit offline_net dname s"
  by (simp add: dkim_hit_def checkDNS_def offline_net_def)

text \<open>
  C2 on \<open>example.com\<close>: with an answer at \<open>default\<close> and \<open>google\<close> the
  selector is \<open>default\<close> and one query is issued; with an answer at \<open>selector1\<close>
  and \<open>google\<close> it is \<open>selector1\<close>, after two queries; with an answer at
  \<open>google\<close> only it is \<open>google\<close>, after three; with every fetch failing the
  evaluation is the initial one; and a network with other answer contents at the same
  selectors gives the same evaluation.
\<close>

theorem C2_dkim_priority_witness:
  "dkim_hit example_dkim_net ''example.com'' ''default''
   \<and> dkim_hit example_dkim_net ''example.com'' ''google''
   \<and> find (dkim_hit example_dkim_net ''example.com'') dkimSelectors = Some ''default''
   \<and> dkim_loop example_dkim_net ''example.com'' dkimSelectors dkim_initial [] =
        (\<lparr> type' = ''DKIM'', status = Valid,
           record' = Some ''Selector: default (found)'',
           issues = [], recommendations = [] \<rparr>,
         [''https://dns.google/resolve?name=default._domainkey.example.com&type=TXT''])
   \<and> \<not> dkim_hit example_selector1_net ''example.com'' ''default''
   \<and> dkim_hit example_selector1_net ''example.com'' ''selector1''
   \<and> dkim_hit example_selector1_net ''example.com'' ''google''
   \<and> dkim_loop example_selector1_net ''example.com'' dkimSelectors dkim_initial [] =
        (\<lparr> type' = ''DKIM'', status = Valid,
           record' = Some ''Selector: selector1 (found)'',
           issues = [], recommendations = [] \<rparr>,
         [''https://dns.google/resolve?name=default._domainkey.example.com&type=TXT'',
          ''https://dns.google/resolve?name=selector1._domainkey.example.com&type=TXT''])
   \<and> \<not> dkim_hit example_google_net ''example.com'' ''default''
   \<and> \<not> dkim_hit example_google_net ''example.com'' ''selector1''
   \<and> dkim_hit example_google_net ''example.com'' ''google''
   \<and> dkim_loop example_google_net ''example.com'' dkimSelectors dkim_initial [] =
        (\<lparr> type' = ''DKIM'', status = Valid,
           record' = Some ''Selector: google (found)'',
           issues = [], recommendations = [] \<rparr>,
         [''https://dns.google/resolve?name=default._domainkey.example.com&type=TXT'',
          ''https://dns.google/resolve?name=selector1._domainkey.example.com&type=TXT'',
          ''https://dns.google/resolve?name=google._domainkey.example.com&type=TXT''])
   \<and> \<not> dkim_hit offline_net ''example.com'' ''default''
   \<and> \<not> dkim_hit offline_net ''example.com'' ''selector1''
   \<and> \<not> dkim_hit offline_net ''example.com'' ''google''
   \<and> dkim_loop offline_net ''example.com'' dkimSelectors dkim_initial [] =
        (dkim_initial,
         [''https://dns.google/resolve?name=default._domainkey.example.com&type=TXT'',
          ''https://dns.google/resolve?name=selector1._domainkey.example.com&type=TXT'',
          ''https://dns.google/resolve?name=google._domainkey.example.com&type=TXT''])
   \<and> dkim_hit example_dkim_net ''example.com'' ''default'' =
       dkim_hit example_dkim_net_other_keys ''example.com'' ''default''
   \<and> dkim_hit example_dkim_net ''example.com'' ''selector1'' =
       dkim_hit example_dkim_net_other_keys ''example.com'' ''selector1''
   \<and> dkim_hit example_dkim_net ''example.com'' ''google'' =
       dkim_hit example_dkim_net_other_keys ''example.com'' ''google''
   \<and> fst (dkim_loop example_dkim_net ''example.com'' dkimSelectors dkim_initial []) =
       fst (dkim_loop example_dkim_net_other_keys ''example.com'' dkimSelectors dkim_initial [])"
proof -
  have a: "find (dkim_hit example_dkim_net ''example.com'') dkimSelectors = Some ''default''"
    by (simp add: dkimSelectors_def example_dkim_net_default)
  have "dkim_loop example_dkim_net ''example.com'' dkimSelectors dkim_initial [] =
        (\<lparr> type' = ''DKIM'', status = Valid,
           record' = Some ''Selector: default (found)'',
           issues = [], recommendations = [] \<rparr>,
         [''https://dns.google/resolve?name=default._domainkey.example.com&type=TXT''])"
    using C2_dkim_priority [of example_dkim_net "''example.com''" "''default''" "[]" example_dkim_net]
      example_dkim_net_default
    by (simp add: resolve_url_def)
  moreover
  have "dkim_loop example_selector1_net ''example.com'' dkimSelectors dkim_initial [] =
        (\<lparr> type' = ''DKIM'', status = Valid,
           record' = Some ''Selector: selector1 (found)'',
           issues = [], recommendations = [] \<rparr>,
         [''https://dns.google/resolve?name=default._domainkey.example.com&type=TXT'',
          ''https://dns.google/resolve?name=selector1._domainkey.example.com&type=TXT''])"
    using C2_dkim_priority [of example_selector1_net "''example.com''" "''selector1''" "[]"
        example_selector1_net]
      example_selector1_net_hits
    by (simp add: resolve_url_def)
  moreover
  have "dkim_loop example_google_net ''example.com'' dkimSelectors dkim_initial [] =
        (\<lparr> type' = ''DKIM'', status = Valid,
           record' = Some ''Selector: google (found)'',
           issues = [], recommendations = [] \<rparr>,
         [''https://dns.google/resolve?name=default._domainkey.example.com&type=TXT'',
          ''https://dns.google/resolve?name=selector1._domainkey.example.com&type=TXT'',
          ''https://dns.google/resolve?name=google._domainkey.example.com&type=TXT''])"
    using C2_dkim_priority [of example_google_net "''example.com''" "''google''" "[]" example_google_net]
      example_google_net_hits
    by (simp add: resolve_url_def)
  moreover
  have "dkim_loop offline_net ''example.com'' dkimSelectors dkim_initial [] =
        (dkim_initial,
         [''https://dns.google/resolve?name=default._domainkey.example.com&type=TXT'',
          ''https://dns.google/resolve?name=selector1._domainkey.example.com&type=TXT'',
          ''https://dns.google/resolve?name=google._domainkey.example.com&type=TXT''])"
    using C2_dkim_priority [of offline_net "''example.com''" "''google''" "[]" offline_net]
      offline_net_hits
    by (simp add: resolve_url_def)
  moreover
  have "fst (dkim_loop example_dkim_net ''example.com'' dkimSelectors dkim_initial []) =
       fst (dkim_loop example_dkim_net_other_keys ''example.com'' dkimSelectors dkim_initial [])"
  proof -
    have "\<forall>s\<in>set dkimSelectors. dkim_hit example_dkim_net ''example.com'' s =
        dkim_hit example_dkim_net_other_keys ''example.com'' s"
      using example_dkim_net_default example_dkim_net_selector1 example_dkim_net_google
        example_dkim_net_other_keys_hits
      by (simp add: dkimSelectors_def)
    with C2_dkim_priority [of example_dkim_net "''example.com''" "''default''" "[]"
        example_dkim_net_other_keys]
    show ?thesis
      by blast
  qed
  ultimately show ?thesis
    using a example_dkim_net_default example_dkim_net_selector1 example_dkim_net_google
      example_dkim_net_other_keys_hits example_selector1_net_hits
      example_google_net_hits offline_net_hits
    by simp
qed

subsection \<open>Malformed addresses\<close>

lemma try_block_Inl:
  "extract_domain email_in = Inl err \<Longrightarrow> try_block net now email_in qlog = (Inl err, qlog)"
  by (simp add: try_block_def)

lemma try_block_Inr:
  assumes "extract_domain email_in = Inr dname"
  shows "try_block net now email_in qlog =
     (Inr \<lparr> email = email_in, domain = dname,
            overall_status = overallStatus
              [status (spf_evaluation (fst (checkDNS net dname ''TXT'' []))),
               status (dmarc_evaluation (fst (checkDNS net (''_dmarc.'' @ dname) ''TXT'' []))),
               status (fst (dkim_loop net dname dkimSelectors dkim_initial []))],
            spf = spf_evaluation (fst (checkDNS net dname ''TXT'' [])),
            dmarc = dmarc_evaluation (fst (checkDNS net (''_dmarc.'' @ dname) ''TXT'' [])),
            dkim = fst (dkim_loop net dname dkimSelectors dkim_initial []),
            timestamp = now \<rparr>,
      snd (dkim_loop net dname dkimSelectors dkim_initial
             (qlog @ [resolve_url dname ''TXT'', resolve_url (''_dmarc.'' @ dname) ''TXT''])))"
  using assms
  by (simp add: try_block_def checkDNS_def Let_def split_beta dkim_loop_fst)

lemma report_overall_status:
  assumes "fst (try_block net now email_in qlog) = Inr rep"
  shows "overall_status rep = overallStatus [status (spf rep), status (dmarc rep), status (dkim rep)]"
proof (cases "extract_domain email_in")
  case (Inl err)
  with assms show ?thesis
    by (simp add: try_block_Inl)
next
  case (Inr dname)
  with assms show ?thesis
    by (auto simp: try_block_Inr)
qed

lemma extract_domain_no_at:
  "CHR ''@'' \<notin> set email_in \<Longrightarrow> extract_domain email_in = Inl TypeError"
  by (simp add: extract_domain_def split_no_sep)

lemma extract_domain_Inr_nonempty: "extract_domain email_in = Inr dname \<Longrightarrow> email_in \<noteq> []"
  by (auto simp: extract_domain_def)

lemma handleCheck_Inr:
  assumes "extract_domain email_in = Inr dname"
  shows "fst (handleCheck net now email_in st qlog) =
     \<lparr> loading = False,
       result = Some
         \<lparr> email = email_in, domain = dname,
            overall_status = overallStatus
              [status (spf_evaluation (fst (checkDNS net dname ''TXT'' []))),
               status (dmarc_evaluation (fst (checkDNS net (''_dmarc.'' @ dname) ''TXT'' []))),
               status (fst (dkim_loop net dname dkimSelectors dkim_initial []))],
            spf = spf_evaluation (fst (checkDNS net dname ''TXT'' [])),
            dmarc = dmarc_evaluation (fst (checkDNS net (''_dmarc.'' @ dname) ''TXT'' [])),
            dkim = fst (dkim_loop net dname dkimSelectors dkim_initial []),
            timestamp = now \<rparr>,
       error = [] \<rparr>"
  using extract_domain_Inr_nonempty [OF assms]
  by (simp add: handleCheck_def try_block_Inr [OF assms])

lemma extract_domain_empty_part:
  "CHR ''@'' \<notin> set p \<Longrightarrow> extract_domain (p @ ''@'') = Inr []"
  by (simp add: extract_domain_def split_first toLowerCase_def)

lemma dkim_loop_first_query:
  "prefix (qlog @ [resolve_url (''default._domainkey.'' @ dname) ''TXT''])
     (snd (dkim_loop net dname dkimSelectors dkim_initial qlog))"
  unfolding dkim_loop_snd
  by (cases "dkim_hit net dname ''default''") (simp_all add: dkimSelectors_def)

text \<open>
  Claim C5, as the code has it. For every non-empty e-mail string without an \<open>@\<close>, the
  handler fails before any DNS query is issued: the split has one piece, reading the
  second one throws, and the \<^verbatim>\<open>catch\<close> shows the handler's one error message,
  with no report and an unchanged query log. There is no separate kind of error for a
  malformed address. Every e-mail string whose part after the first \<open>@\<close> is empty is
  not rejected: its domain is the empty string, no error is shown, a report for that
  domain is produced, and the queries for it are issued, the first three of them in every
  case. The empty e-mail string makes the handler return at once, with the state and the
  query log unchanged.
\<close>

theorem C5_no_at_sign:
  "(email_in \<noteq> [] \<longrightarrow> CHR ''@'' \<notin> set email_in \<longrightarrow>
     handleCheck net now email_in st qlog =
       (\<lparr> loading = False, result = None,
          error = ''An error occurred while checking DNS records. Please try again.'' \<rparr>,
        qlog))
   \<and> (CHR ''@'' \<notin> set p \<longrightarrow>
        extract_domain (p @ ''@'') = Inr []
        \<and> loading (fst (handleCheck net now (p @ ''@'') st qlog)) = False
        \<and> error (fst (handleCheck net now (p @ ''@'') st qlog)) = []
        \<and> map_option (\<lambda>rep. (email rep, domain rep))
             (result (fst (handleCheck net now (p @ ''@'') st qlog))) = Some (p @ ''@'', [])
        \<and> prefix (qlog @ [''https://dns.google/resolve?name=&type=TXT'',
                           ''https://dns.google/resolve?name=_dmarc.&type=TXT'',
                           ''https://dns.google/resolve?name=default._domainkey.&type=TXT''])
             (snd (handleCheck net now (p @ ''@'') st qlog)))
   \<and> handleCheck net now [] st qlog = (st, qlog)"
proof (intro conjI impI)
  assume "email_in \<noteq> []" and "CHR ''@'' \<notin> set email_in"
  then show "handleCheck net now email_in st qlog =
       (\<lparr> loading = False, result = None,
          error = ''An error occurred while checking DNS records. Please try again.'' \<rparr>,
        qlog)"
    by (simp add: handleCheck_def try_block_Inl extract_domain_no_at)
next
  show "handleCheck net now [] st qlog = (st, qlog)"
    by (simp add: handleCheck_def)
next
  assume p: "CHR ''@'' \<notin> set p"
  then show d: "extract_domain (p @ ''@'') = Inr []"
    by (rule extract_domain_empty_part)
  show "loading (fst (handleCheck net now (p @ ''@'') st qlog)) = False"
    and "error (fst (handleCheck net now (p @ ''@'') st qlog)) = []"
    and "map_option (\<lambda>rep. (email rep, domain rep))
             (result (fst (handleCheck net now (p @ ''@'') st qlog))) = Some (p @ ''@'', [])"
    by (simp_all add: handleCheck_Inr [OF d])
  have "snd (handleCheck net now (p @ ''@'') st qlog) =
      snd (dkim_loop net [] dkimSelectors dkim_initial
        (qlog @ [resolve_url [] ''TXT'', resolve_url (''_dmarc.'' @ []) ''TXT'']))"
    by (simp add: handleCheck_def try_block_Inr [OF d])
  moreover have "prefix
      ((qlog @ [resolve_url [] ''TXT'', resolve_url (''_dmarc.'' @ []) ''TXT''])
        @ [resolve_url (''default._domainkey.'' @ []) ''TXT''])
      (snd (dkim_loop net [] dkimSelectors dkim_initial
        (qlog @ [resolve_url [] ''TXT'', resolve_url (''_dmarc.'' @ []) ''TXT''])))"
    by (rule dkim_loop_first_query)
  ultimately show "prefix (qlog @ [''https://dns.google/resolve?name=&type=TXT'',
                           ''https://dns.google/resolve?name=_dmarc.&type=TXT'',
                           ''https://dns.google/resolve?name=default._domainkey.&type=TXT''])
             (snd (handleCheck net now (p @ ''@'') st qlog))"
    by (simp add: resolve_url_def)
qed

text \<open>
  C5 on \<open>not-an-email\<close> (the error message, no report, no query), on \<open>user@\<close>
  (no error, a report for the empty domain, queries issued) and on the empty string
  (nothing changes).
\<close>

theorem C5_no_at_sign_witness:
  "''not-an-email'' \<noteq> [] \<and> CHR ''@'' \<notin> set ''not-an-email''
   \<and> handleCheck no_answer_net ''2024-01-01T00:00:00.000Z'' ''not-an-email'' idle_state [] =
       (\<lparr> loading = False, result = None,
          error = ''An error occurred while checking DNS records. Please try again.'' \<rparr>,
        [])
   \<and> CHR ''@'' \<notin> set ''user''
   \<and> extract_domain ''user@'' = Inr []
   \<and> error (fst (handleCheck example_dkim_net ''2024-01-01T00:00:00.000Z'' ''user@''
         idle_state [])) = []
   \<and> map_option (\<lambda>rep. (email rep, domain rep))
        (result (fst (handleCheck example_dkim_net ''2024-01-01T00:00:00.000Z'' ''user@''
           idle_state []))) = Some (''user@'', [])
   \<and> prefix [''https://dns.google/resolve?name=&type=TXT'',
              ''https://dns.google/resolve?name=_dmarc.&type=TXT'',
              ''https://dns.google/resolve?name=default._domainkey.&type=TXT'']
        (snd (handleCheck example_dkim_net ''2024-01-01T00:00:00.000Z'' ''user@''
           idle_state []))
   \<and> handleCheck example_dkim_net ''2024-01-01T00:00:00.000Z'' []
         (idle_state\<lparr> error := ''earlier error'' \<rparr>) [''earlier query''] =
       (idle_state\<lparr> error := ''earlier error'' \<rparr>, [''earlier query''])"
proof -
  have "handleCheck no_answer_net ''2024-01-01T00:00:00.000Z'' ''not-an-email'' idle_state [] =
       (\<lparr> loading = False, result = None,
          error = ''An error occurred while checking DNS records. Please try again.'' \<rparr>,
        [])"
    using C5_no_at_sign [where email_in = "''not-an-email''" and net = no_answer_net
        and now = "''2024-01-01T00:00:00.000Z''" and st = idle_state and qlog = "[]"]
    by simp
  moreover
  have "extract_domain ''user@'' = Inr []
   \<and> error (fst (handleCheck example_dkim_net ''2024-01-01T00:00:00.000Z'' ''user@''
         idle_state [])) = []
   \<and> map_option (\<lambda>rep. (email rep, domain rep))
        (result (fst (handleCheck example_dkim_net ''2024-01-01T00:00:00.000Z'' ''user@''
           idle_state []))) = Some (''user@'', [])
   \<and> prefix [''https://dns.google/resolve?name=&type=TXT'',
              ''https://dns.google/resolve?name=_dmarc.&type=TXT'',
              ''https://dns.google/resolve?name=default._domainkey.&type=TXT'']
        (snd (handleCheck example_dkim_net ''2024-01-01T00:00:00.000Z'' ''user@''
           idle_state []))"
    using C5_no_at_sign [where p = "''user''" and net = example_dkim_net
        and now = "''2024-01-01T00:00:00.000Z''" and st = idle_state and qlog = "[]"]
    by simp
  moreover
  have "handleCheck example_dkim_net ''2024-01-01T00:00:00.000Z'' []
         (idle_state\<lparr> error := ''earlier error'' \<rparr>) [''earlier query''] =
       (idle_state\<lparr> error := ''earlier error'' \<rparr>, [''earlier query''])"
    using C5_no_at_sign [where net = example_dkim_net
        and now = "''2024-01-01T00:00:00.000Z''"
        and st = "idle_state\<lparr> error := ''earlier error'' \<rparr>" and qlog = "[''earlier query'']"]
    by blast
  ultimately show ?thesis
    by simp
qed

text \<open>
  The claim C5 as stated fails on \<open>a@\<close>, whose part after the \<open>@\<close> is empty: the
  domain is the empty string, no error is shown, and the five queries are issued for it.
  It also fails on the empty string, which has no \<open>@\<close>: the handler returns at its first
  line and shows no error.
\<close>

theorem C5_counterexample:
  "CHR ''@'' \<in> set ''a@''
   \<and> split (CHR ''@'') ''a@'' = [''a'', []]
   \<and> error (fst (handleCheck no_answer_net ''2024-01-01T00:00:00.000Z'' ''a@'' idle_state [])) = []
   \<and> map_option domain
        (result (fst (handleCheck no_answer_net ''2024-01-01T00:00:00.000Z'' ''a@'' idle_state [])))
       = Some []
   \<and> snd (handleCheck no_answer_net ''2024-01-01T00:00:00.000Z'' ''a@'' idle_state []) =
       [''https://dns.google/resolve?name=&type=TXT'',
        ''https://dns.google/resolve?name=_dmarc.&type=TXT'',
        ''https://dns.google/resolve?name=default._domainkey.&type=TXT'',
        ''https://dns.google/resolve?name=selector1._domainkey.&type=TXT'',
        ''https://dns.google/resolve?name=google._domainkey.&type=TXT'']
   \<and> CHR ''@'' \<notin> set ''''
   \<and> handleCheck no_answer_net ''2024-01-01T00:00:00.000Z'' '''' idle_state [] = (idle_state, [])"
proof -
  have d: "extract_domain ''a@'' = Inr []"
    by (simp add: extract_domain_def toLowerCase_def)
  have hit: "\<not> dkim_hit no_answer_net [] s" for s
    by (simp add: dkim_hit_def checkDNS_def no_answer_net_def)
  have q: "snd (dkim_loop no_answer_net [] dkimSelectors dkim_initial q0) =
      q0 @ [''https://dns.google/resolve?name=default._domainkey.&type=TXT'',
        ''https://dns.google/resolve?name=selector1._domainkey.&type=TXT'',
        ''https://dns.google/resolve?name=google._domainkey.&type=TXT'']" for q0
    unfolding dkim_loop_snd by (simp add: hit dkimSelectors_def resolve_url_def)
  show ?thesis
    by (simp add: handleCheck_def try_block_Inr [OF d] q resolve_url_def)
qed

subsection \<open>Failing resolver calls\<close>

lemma checkDNS_failed:
  "transport_failed (net (resolve_url dname recordType)) \<Longrightarrow>
     checkDNS net dname recordType qlog = ([], qlog @ [resolve_url dname recordType])"
  by (simp add: checkDNS_def transport_failed_def split: response.splits option.splits)

lemma checkDNS_upd:
  assumes "transport_failed (net url)"
  shows "checkDNS (net(url := Body (Some []))) dname recordType qlog =
     checkDNS net dname recordType qlog"
proof (cases "resolve_url dname recordType = url")
  case True
  with assms have "checkDNS net dname recordType qlog = ([], qlog @ [url])"
    by (simp add: checkDNS_failed)
  moreover from True
  have "checkDNS (net(url := Body (Some []))) dname recordType qlog = ([], qlog @ [url])"
    by (simp add: checkDNS_def)
  ultimately show ?thesis by simp
next
  case False
  then show ?thesis
    by (simp add: checkDNS_def)
qed

lemma dkim_loop_upd:
  assumes "transport_failed (net url)"
  shows "dkim_loop (net(url := Body (Some []))) dname selectors ev qlog =
     dkim_loop net dname selectors ev qlog"
proof (induction selectors arbitrary: qlog)
  case Nil
  show ?case by (simp only: dkim_loop.simps)
next
  case (Cons selector rest)
  show ?case
    by (simp only: dkim_loop.simps checkDNS_upd [of net url, OF assms] Cons.IH)
qed

lemma try_block_upd:
  "transport_failed (net url) \<Longrightarrow>
     try_block (net(url := Body (Some []))) now email_in qlog = try_block net now email_in qlog"
  by (simp only: try_block_def checkDNS_upd dkim_loop_upd)

text \<open>
  Claim C7. A resolver call whose fetch fails (network error, body that is not JSON, or
  no \<^verbatim>\<open>Answer\<close> field) returns the empty answer list and throws nothing. The whole
  handler behaves exactly as if that call had returned an empty answer set: replacing the
  failed response by an empty \<^verbatim>\<open>Answer\<close> array changes neither the state nor the
  queries. No error is shown, and the record whose query failed gets the evaluation of an
  absent record, whose status is missing (for DKIM, when the queries of all three
  selectors fail).
\<close>

theorem C7_transport_failure:
  "(transport_failed (net (resolve_url dname recordType)) \<longrightarrow>
      fst (checkDNS net dname recordType qlog) = [])
   \<and> (transport_failed (net url) \<longrightarrow>
        handleCheck (net(url := Body (Some []))) now email_in st qlog =
        handleCheck net now email_in st qlog)
   \<and> (extract_domain email_in = Inr dname \<longrightarrow>
        transport_failed (net (resolve_url dname ''TXT'')) \<longrightarrow>
          error (fst (handleCheck net now email_in st qlog)) = []
          \<and> map_option spf (result (fst (handleCheck net now email_in st qlog))) =
              Some (spf_evaluation []))
   \<and> (extract_domain email_in = Inr dname \<longrightarrow>
        transport_failed (net (resolve_url (''_dmarc.'' @ dname) ''TXT'')) \<longrightarrow>
          error (fst (handleCheck net now email_in st qlog)) = []
          \<and> map_option dmarc (result (fst (handleCheck net now email_in st qlog))) =
              Some (dmarc_evaluation []))
   \<and> (extract_domain email_in = Inr dname \<longrightarrow>
        (\<forall>s\<in>set dkimSelectors.
            transport_failed (net (resolve_url (s @ ''._domainkey.'' @ dname) ''TXT''))) \<longrightarrow>
          error (fst (handleCheck net now email_in st qlog)) = []
          \<and> map_option dkim (result (fst (handleCheck net now email_in st qlog))) =
              Some dkim_initial)
   \<and> status (spf_evaluation []) = Missing
   \<and> status (dmarc_evaluation []) = Missing
   \<and> status dkim_initial = Missing"
proof (intro conjI impI)
  assume "transport_failed (net (resolve_url dname recordType))"
  then show "fst (checkDNS net dname recordType qlog) = []"
    by (simp add: checkDNS_failed)
next
  assume "transport_failed (net url)"
  then show "handleCheck (net(url := Body (Some []))) now email_in st qlog =
        handleCheck net now email_in st qlog"
    by (simp only: handleCheck_def try_block_upd)
next
  assume d: "extract_domain email_in = Inr dname"
    and f: "transport_failed (net (resolve_url dname ''TXT''))"
  show "error (fst (handleCheck net now email_in st qlog)) = []"
    by (simp add: handleCheck_Inr [OF d])
  show "map_option spf (result (fst (handleCheck net now email_in st qlog))) =
              Some (spf_evaluation [])"
    using checkDNS_failed [of net _ "''TXT''" "[]", OF f] by (simp add: handleCheck_Inr [OF d])
next
  assume d: "extract_domain email_in = Inr dname"
    and f: "transport_failed (net (resolve_url (''_dmarc.'' @ dname) ''TXT''))"
  show "error (fst (handleCheck net now email_in st qlog)) = []"
    by (simp add: handleCheck_Inr [OF d])
  show "map_option dmarc (result (fst (handleCheck net now email_in st qlog))) =
              Some (dmarc_evaluation [])"
    using checkDNS_failed [of net _ "''TXT''" "[]", OF f] by (simp add: handleCheck_Inr [OF d])
next
  assume d: "extract_domain email_in = Inr dname"
    and f: "\<forall>s\<in>set dkimSelectors.
            transport_failed (net (resolve_url (s @ ''._domainkey.'' @ dname) ''TXT''))"
  show "error (fst (handleCheck net now email_in st qlog)) = []"
    by (simp add: handleCheck_Inr [OF d])
  have "\<forall>s\<in>set dkimSelectors. \<not> dkim_hit net dname s"
    using f by (simp add: dkim_hit_def checkDNS_failed)
  then have "find (dkim_hit net dname) dkimSelectors = None"
    by (simp add: find_None_iff)
  then show "map_option dkim (result (fst (handleCheck net now email_in st qlog))) =
              Some dkim_initial"
    by (simp add: handleCheck_Inr [OF d] dkim_loop_fst)
next
  show "status (spf_evaluation []) = Missing"
    by (simp add: spf_evaluation_def)
  show "status (dmarc_evaluation []) = Missing"
    by (simp add: dmarc_evaluation_def)
  show "status dkim_initial = Missing"
    by (simp add: dkim_initial_def)
qed

lemma extract_domain_example: "extract_domain ''user@example.com'' = Inr ''example.com''"
  by (simp add: extract_domain_def toLowerCase_def lower_char_def)

text \<open>
  C7 on \<open>user@example.com\<close> with every fetch failing: no error is shown and the three
  records are missing.
\<close>

theorem C7_transport_failure_witness:
  "transport_failed (offline_net (resolve_url ''example.com'' ''TXT''))
   \<and> transport_failed (offline_net (resolve_url ''_dmarc.example.com'' ''TXT''))
   \<and> transport_failed (offline_net (resolve_url ''default._domainkey.example.com'' ''TXT''))
   \<and> transport_failed (offline_net (resolve_url ''selector1._domainkey.example.com'' ''TXT''))
   \<and> transport_failed (offline_net (resolve_url ''google._domainkey.example.com'' ''TXT''))
   \<and> extract_domain ''user@example.com'' = Inr ''example.com''
   \<and> fst (checkDNS offline_net ''example.com'' ''TXT'' []) = []
   \<and> handleCheck (offline_net(resolve_url ''example.com'' ''TXT'' := Body (Some [])))
         ''2024-01-01T00:00:00.000Z'' ''user@example.com'' idle_state [] =
       handleCheck offline_net ''2024-01-01T00:00:00.000Z'' ''user@example.com'' idle_state []
   \<and> error (fst (handleCheck offline_net ''2024-01-01T00:00:00.000Z'' ''user@example.com''
         idle_state [])) = []
   \<and> map_option (\<lambda>rep. (status (spf rep), status (dmarc rep), status (dkim rep)))
        (result (fst (handleCheck offline_net ''2024-01-01T00:00:00.000Z'' ''user@example.com''
           idle_state []))) = Some (Missing, Missing, Missing)"
proof -
  let ?st = "fst (handleCheck offline_net ''2024-01-01T00:00:00.000Z'' ''user@example.com''
    idle_state [])"
  have f: "transport_failed (offline_net u)" for u
    by (simp add: offline_net_def transport_failed_def)
  note c7 = C7_transport_failure [of offline_net "''example.com''" "''TXT''" "[]"
      "resolve_url ''example.com'' ''TXT''" "''2024-01-01T00:00:00.000Z''"
      "''user@example.com''" idle_state]
  from c7 f extract_domain_example
  have parts: "map_option spf (result ?st) = Some (spf_evaluation [])"
    "map_option dmarc (result ?st) = Some (dmarc_evaluation [])"
    "map_option dkim (result ?st) = Some dkim_initial"
    and missing: "status (spf_evaluation []) = Missing" "status (dmarc_evaluation []) = Missing"
      "status dkim_initial = Missing"
    and rest: "fst (checkDNS offline_net ''example.com'' ''TXT'' []) = []"
      "handleCheck (offline_net(resolve_url ''example.com'' ''TXT'' := Body (Some [])))
         ''2024-01-01T00:00:00.000Z'' ''user@example.com'' idle_state [] =
       handleCheck offline_net ''2024-01-01T00:00:00.000Z'' ''user@example.com'' idle_state []"
      "error ?st = []"
    by simp_all
  from parts missing
  have "map_option (\<lambda>rep. (status (spf rep), status (dmarc rep), status (dkim rep))) (result ?st)
      = Some (Missing, Missing, Missing)"
    by (cases "result ?st") auto
  with rest f extract_domain_example show ?thesis
    by simp
qed

subsection \<open>Determinism\<close>

text \<open>
  Claim C9. The handler is deterministic in the e-mail address and the resolver's
  answers: run twice from the same state on the same network, at two different times, it
  leaves states that are equal in every field (loading flag, error, and the report with
  its domain, overall status and three evaluations) except the report's timestamp, and it
  issues the same queries. For a non-empty address the outcome does not depend on the
  state or the query log it started from either.
\<close>

theorem C9_deterministic:
  "without_timestamp (fst (handleCheck net now1 email_in st qlog)) =
     without_timestamp (fst (handleCheck net now2 email_in st qlog))
   \<and> snd (handleCheck net now1 email_in st qlog) = snd (handleCheck net now2 email_in st qlog)
   \<and> (email_in \<noteq> [] \<longrightarrow>
        without_timestamp (fst (handleCheck net now1 email_in st1 qlog1)) =
        without_timestamp (fst (handleCheck net now2 email_in st2 qlog2)))"
proof (cases "extract_domain email_in")
  case (Inl err)
  then show ?thesis
    by (simp add: handleCheck_def try_block_Inl without_timestamp_def)
next
  case (Inr dname)
  have "snd (handleCheck net now email_in st qlog) =
      snd (try_block net now email_in qlog)" for now
    using extract_domain_Inr_nonempty [OF Inr]
    by (cases "try_block net now email_in qlog")
      (auto simp: handleCheck_def Let_def split: sum.splits)
  then have "snd (handleCheck net now1 email_in st qlog) =
      snd (handleCheck net now2 email_in st qlog)"
    by (simp add: try_block_Inr [OF Inr])
  then show ?thesis
    by (simp add: handleCheck_Inr [OF Inr] without_timestamp_def)
qed

text \<open>
  C9 on \<open>user@example.com\<close>: two checks at different times, the second one starting
  from a state with an earlier error, differ in the timestamp only.
\<close>

theorem C9_deterministic_witness:
  "''user@example.com'' \<noteq> []
   \<and> without_timestamp (fst (handleCheck example_dkim_net ''2024-01-01T00:00:00.000Z''
         ''user@example.com'' idle_state [])) =
       without_timestamp (fst (handleCheck example_dkim_net ''2025-06-30T12:00:00.000Z''
         ''user@example.com'' (idle_state\<lparr> error := ''earlier error'' \<rparr>) [''earlier query'']))"
proof -
  have nonempty: "''user@example.com'' \<noteq> []"
    by simp
  have "''user@example.com'' \<noteq> [] \<longrightarrow>
    without_timestamp (fst (handleCheck example_dkim_net ''2024-01-01T00:00:00.000Z''
         ''user@example.com'' idle_state [])) =
       without_timestamp (fst (handleCheck example_dkim_net ''2025-06-30T12:00:00.000Z''
         ''user@example.com'' (idle_state\<lparr> error := ''earlier error'' \<rparr>) [''earlier query'']))"
    using C9_deterministic [where net = example_dkim_net
      and ?now1.0 = "''2024-01-01T00:00:00.000Z''" and ?now2.0 = "''2025-06-30T12:00:00.000Z''"
      and email_in = "''user@example.com''" and st = idle_state and qlog = "[]"
      and ?st1.0 = idle_state and ?qlog1.0 = "[]"
      and ?st2.0 = "idle_state\<lparr> error := ''earlier error'' \<rparr>"
      and ?qlog2.0 = "[''earlier query'']"]
    by blast
  with nonempty show ?thesis
    by blast
qed

subsection \<open>The invariant of the evaluations\<close>

lemma spf_evaluation_invariant: "evaluation_invariant (spf_evaluation txtRecords)"
proof (cases "find (\<lambda>r. includes_str (data r) ''v=spf1'') txtRecords")
  case None
  then show ?thesis
    by (simp add: spf_evaluation_none evaluation_invariant_def)
next
  case (Some r)
  then show ?thesis
    by (simp add: spf_evaluation_some evaluation_invariant_def)
qed

lemma dmarc_evaluation_invariant: "evaluation_invariant (dmarc_evaluation dmarcRecords)"
proof (cases "find (\<lambda>r. includes_str (data r) ''v=DMARC1'') dmarcRecords")
  case None
  then show ?thesis
    by (simp add: dmarc_evaluation_none evaluation_invariant_def)
next
  case (Some r)
  then show ?thesis
    by (simp add: dmarc_evaluation_some evaluation_invariant_def)
qed

lemma dkim_loop_invariant:
  "evaluation_invariant ev \<Longrightarrow> evaluation_invariant (fst (dkim_loop net dname selectors ev qlog))"
  by (simp add: dkim_loop_fst dkim_found_def evaluation_invariant_def split: option.splits)

lemma dkim_initial_invariant: "evaluation_invariant dkim_initial"
  by (simp add: dkim_initial_def evaluation_invariant_def)

text \<open>
  Claim C8. Every evaluation that the SPF, DMARC and DKIM code produces, and so each of
  the three evaluations of every report, satisfies the invariant of the data model: a
  missing status comes with no record, a warning, missing or invalid status with at least
  one issue, and a valid status with no issue.
\<close>

theorem C8_evaluation_invariant:
  "evaluation_invariant (spf_evaluation txtRecords)
   \<and> evaluation_invariant (dmarc_evaluation dmarcRecords)
   \<and> evaluation_invariant (fst (dkim_loop net dname dkimSelectors dkim_initial qlog))
   \<and> (fst (try_block net now email_in qlog) = Inr rep \<longrightarrow>
        evaluation_invariant (spf rep) \<and> evaluation_invariant (dmarc rep)
        \<and> evaluation_invariant (dkim rep))"
proof (intro conjI impI)
  show "evaluation_invariant (spf_evaluation txtRecords)"
    by (rule spf_evaluation_invariant)
  show "evaluation_invariant (dmarc_evaluation dmarcRecords)"
    by (rule dmarc_evaluation_invariant)
  show "evaluation_invariant (fst (dkim_loop net dname dkimSelectors dkim_initial qlog))"
    by (rule dkim_loop_invariant [OF dkim_initial_invariant])
next
  assume r: "fst (try_block net now email_in qlog) = Inr rep"
  then obtain d where d: "extract_domain email_in = Inr d"
    by (cases "extract_domain email_in") (simp_all add: try_block_Inl)
  from r have rep: "spf rep = spf_evaluation (fst (checkDNS net d ''TXT'' []))"
    "dmarc rep = dmarc_evaluation (fst (checkDNS net (''_dmarc.'' @ d) ''TXT'' []))"
    "dkim rep = fst (dkim_loop net d dkimSelectors dkim_initial [])"
    by (auto simp: try_block_Inr [OF d])
  show "evaluation_invariant (spf rep)"
    unfolding rep by (rule spf_evaluation_invariant)
  show "evaluation_invariant (dmarc rep)"
    unfolding rep by (rule dmarc_evaluation_invariant)
  show "evaluation_invariant (dkim rep)"
    unfolding rep by (rule dkim_loop_invariant [OF dkim_initial_invariant])
qed

lemma offline_report:
  "fst (try_block offline_net now ''user@example.com'' qlog) =
     Inr \<lparr> email = ''user@example.com'', domain = ''example.com'', overall_status = Fail,
            spf = spf_evaluation [], dmarc = dmarc_evaluation [], dkim = dkim_initial,
            timestamp = now \<rparr>"
proof -
  have f: "transport_failed (offline_net u)" for u
    by (simp add: offline_net_def transport_failed_def)
  have c: "fst (checkDNS offline_net d t q) = []" for d t q
    by (simp add: checkDNS_failed [of offline_net d t q, OF f])
  have "\<not> dkim_hit offline_net ''example.com'' s" for s
    by (simp add: dkim_hit_def c)
  then have k: "fst (dkim_loop offline_net ''example.com'' dkimSelectors dkim_initial q) = dkim_initial"
    for q
    unfolding dkim_loop_fst by (simp add: dkimSelectors_def)
  have s: "status (spf_evaluation []) = Missing" "status (dmarc_evaluation []) = Missing"
    "status dkim_initial = Missing"
    by (simp_all add: spf_evaluation_def dmarc_evaluation_def dkim_initial_def)
  show ?thesis
    by (simp add: try_block_Inr [OF extract_domain_example] c k s overallStatus_def)
qed

text \<open>
  C8 on concrete evaluations: a missing SPF record (no record, an issue), a DMARC record
  with policy \<open>none\<close> (warning, an issue), a DKIM key that is found (valid, no
  issue), and the report of a check during which every fetch fails.
\<close>

theorem C8_evaluation_invariant_witness:
  "fst (try_block offline_net ''2024-01-01T00:00:00.000Z'' ''user@example.com'' []) =
     Inr \<lparr> email = ''user@example.com'', domain = ''example.com'', overall_status = Fail,
            spf = spf_evaluation [], dmarc = dmarc_evaluation [], dkim = dkim_initial,
            timestamp = ''2024-01-01T00:00:00.000Z'' \<rparr>
   \<and> status (spf_evaluation []) = Missing
   \<and> record' (spf_evaluation []) = None
   \<and> issues (spf_evaluation []) \<noteq> []
   \<and> status (dmarc_evaluation
        [\<lparr> name = ''_dmarc.example.com'', data = ''v=DMARC1; p=none'' \<rparr>]) = Warning
   \<and> issues (dmarc_evaluation
        [\<lparr> name = ''_dmarc.example.com'', data = ''v=DMARC1; p=none'' \<rparr>]) \<noteq> []
   \<and> status (fst (dkim_loop example_dkim_net ''example.com'' dkimSelectors dkim_initial []))
       = Valid
   \<and> issues (fst (dkim_loop example_dkim_net ''example.com'' dkimSelectors dkim_initial []))
       = []
   \<and> status dkim_initial = Missing
   \<and> record' dkim_initial = None
   \<and> issues dkim_initial \<noteq> []"
proof -
  let ?rep = "\<lparr> email = ''user@example.com'', domain = ''example.com'', overall_status = Fail,
            spf = spf_evaluation [], dmarc = dmarc_evaluation [], dkim = dkim_initial,
            timestamp = ''2024-01-01T00:00:00.000Z'' \<rparr>"
  let ?dmarc = "dmarc_evaluation [\<lparr> name = ''_dmarc.example.com'', data = ''v=DMARC1; p=none'' \<rparr>]"
  let ?dkim = "fst (dkim_loop example_dkim_net ''example.com'' dkimSelectors dkim_initial [])"
  have rep: "fst (try_block offline_net ''2024-01-01T00:00:00.000Z'' ''user@example.com'' []) =
      Inr ?rep"
    by (rule offline_report)
  have st: "status (spf_evaluation []) = Missing" "status ?dmarc = Warning"
    "status ?dkim = Valid" "status dkim_initial = Missing"
    unfolding dkim_loop_fst
    by (simp_all add: spf_evaluation_def dmarc_evaluation_def remove_quotes_def dquote_def
        dkimSelectors_def example_dkim_net_default dkim_found_def dkim_initial_def)
  have inv: "evaluation_invariant (spf_evaluation [])" "evaluation_invariant ?dmarc"
    "evaluation_invariant ?dkim"
    using C8_evaluation_invariant [where txtRecords = "[]"
      and dmarcRecords = "[\<lparr> name = ''_dmarc.example.com'', data = ''v=DMARC1; p=none'' \<rparr>]"
      and net = example_dkim_net and dname = "''example.com''" and qlog = "[]"]
    by simp_all
  have "fst (try_block offline_net ''2024-01-01T00:00:00.000Z'' ''user@example.com'' []) =
      Inr ?rep \<longrightarrow> evaluation_invariant (dkim ?rep)"
    using C8_evaluation_invariant [where net = offline_net
      and now = "''2024-01-01T00:00:00.000Z''" and email_in = "''user@example.com''"
      and qlog = "[]" and rep = ?rep]
    by blast
  with rep have inv4: "evaluation_invariant dkim_initial"
    by simp
  from inv(1) st(1) have "record' (spf_evaluation []) = None \<and> issues (spf_evaluation []) \<noteq> []"
    by (simp add: evaluation_invariant_def)
  moreover from inv(2) st(2) have "issues ?dmarc \<noteq> []"
    by (simp add: evaluation_invariant_def)
  moreover from inv(3) st(3) have "issues ?dkim = []"
    by (simp add: evaluation_invariant_def)
  moreover from inv4 st(4) have "record' dkim_initial = None \<and> issues dkim_initial \<noteq> []"
    by (simp add: evaluation_invariant_def)
  ultimately show ?thesis
    using rep st by simp
qed

subsection \<open>The record field\<close>

lemma remove_quotes_strip:
  assumes "dquote \<notin> set (strip_surrounding_quotes s)"
  shows "remove_quotes s = strip_surrounding_quotes s"
proof -
  let ?q = "\<lambda>c. c = dquote"
  let ?m = "dropWhile ?q s"
  have s: "s = takeWhile ?q s @ ?m"
    by simp
  have m: "?m = strip_surrounding_quotes s @ rev (takeWhile ?q (rev ?m))"
    unfolding strip_surrounding_quotes_def
    by (metis rev_append rev_rev_ident takeWhile_dropWhile_id)
  have front: "filter (\<lambda>c. c \<noteq> dquote) (takeWhile ?q s) = []"
    by (simp add: filter_empty_conv) (meson set_takeWhileD)
  have rear: "filter (\<lambda>c. c \<noteq> dquote) (rev (takeWhile ?q (rev ?m))) = []"
    by (simp add: filter_empty_conv) (meson set_takeWhileD)
  have mid: "filter (\<lambda>c. c \<noteq> dquote) (strip_surrounding_quotes s) = strip_surrounding_quotes s"
    using assms by (simp add: filter_id_conv) metis
  have "filter (\<lambda>c. c \<noteq> dquote) s =
      filter (\<lambda>c. c \<noteq> dquote) (takeWhile ?q s)
      @ filter (\<lambda>c. c \<noteq> dquote) (strip_surrounding_quotes s)
      @ filter (\<lambda>c. c \<noteq> dquote) (rev (takeWhile ?q (rev ?m)))"
    by (subst s, subst m) (simp only: filter_append)
  then show ?thesis
    by (simp only: remove_quotes_def front rear mid append_Nil append_Nil2)
qed

lemma remove_quotes_no_quote: "dquote \<notin> set (remove_quotes s)"
  by (simp add: remove_quotes_def)

text \<open>
  Claim C6, as the code has it. For SPF and DMARC, when some answer matches, the record
  field is the data of the first matching answer, in the resolver's order, with every
  double-quote character removed, the interior ones included; the other characters are
  kept, in order. When stripping the surrounding quotes leaves no quote inside, the
  record is the data with just its surrounding quotes stripped.
\<close>

theorem C6_record_unquoted:
  "(find (\<lambda>a. includes_str (data a) ''v=spf1'') txtRecords = Some r \<longrightarrow>
      record' (spf_evaluation txtRecords) = Some (filter (\<lambda>c. c \<noteq> CHR 0x22) (data r))
      \<and> (CHR 0x22 \<notin> set (strip_surrounding_quotes (data r)) \<longrightarrow>
           record' (spf_evaluation txtRecords) = Some (strip_surrounding_quotes (data r))))
   \<and> (find (\<lambda>a. includes_str (data a) ''v=DMARC1'') dmarcRecords = Some r2 \<longrightarrow>
      record' (dmarc_evaluation dmarcRecords) = Some (filter (\<lambda>c. c \<noteq> CHR 0x22) (data r2))
      \<and> (CHR 0x22 \<notin> set (strip_surrounding_quotes (data r2)) \<longrightarrow>
           record' (dmarc_evaluation dmarcRecords) = Some (strip_surrounding_quotes (data r2))))"
proof (intro conjI impI)
  assume "find (\<lambda>a. includes_str (data a) ''v=spf1'') txtRecords = Some r"
  then have rec: "record' (spf_evaluation txtRecords) = Some (remove_quotes (data r))"
    by (simp add: spf_evaluation_some)
  then show "record' (spf_evaluation txtRecords) = Some (filter (\<lambda>c. c \<noteq> CHR 0x22) (data r))"
    by (simp add: remove_quotes_def dquote_def)
  assume "CHR 0x22 \<notin> set (strip_surrounding_quotes (data r))"
  then have "remove_quotes (data r) = strip_surrounding_quotes (data r)"
    by (intro remove_quotes_strip) (simp add: dquote_def)
  with rec show "record' (spf_evaluation txtRecords) = Some (strip_surrounding_quotes (data r))"
    by simp
next
  assume "find (\<lambda>a. includes_str (data a) ''v=DMARC1'') dmarcRecords = Some r2"
  then have rec: "record' (dmarc_evaluation dmarcRecords) = Some (remove_quotes (data r2))"
    by (simp add: dmarc_evaluation_some)
  then show "record' (dmarc_evaluation dmarcRecords) =
      Some (filter (\<lambda>c. c \<noteq> CHR 0x22) (data r2))"
    by (simp add: remove_quotes_def dquote_def)
  assume "CHR 0x22 \<notin> set (strip_surrounding_quotes (data r2))"
  then have "remove_quotes (data r2) = strip_surrounding_quotes (data r2)"
    by (intro remove_quotes_strip) (simp add: dquote_def)
  with rec show "record' (dmarc_evaluation dmarcRecords) =
      Some (strip_surrounding_quotes (data r2))"
    by simp
qed

text \<open>
  C6 on a quoted SPF record and a quoted DMARC record without interior quotes.
\<close>

theorem C6_record_unquoted_witness:
  "find (\<lambda>a. includes_str (data a) ''v=spf1'')
      [\<lparr> name = ''example.com'', data = [CHR 0x22] @ ''v=spf1 -all'' @ [CHR 0x22] \<rparr>]
    = Some \<lparr> name = ''example.com'', data = [CHR 0x22] @ ''v=spf1 -all'' @ [CHR 0x22] \<rparr>
   \<and> CHR 0x22 \<notin> set (strip_surrounding_quotes ([CHR 0x22] @ ''v=spf1 -all'' @ [CHR 0x22]))
   \<and> record' (spf_evaluation
        [\<lparr> name = ''example.com'', data = [CHR 0x22] @ ''v=spf1 -all'' @ [CHR 0x22] \<rparr>])
       = Some ''v=spf1 -all''
   \<and> find (\<lambda>a. includes_str (data a) ''v=DMARC1'')
      [\<lparr> name = ''_dmarc.example.com'', data = [CHR 0x22] @ ''v=DMARC1; p=reject'' @ [CHR 0x22] \<rparr>]
    = Some \<lparr> name = ''_dmarc.example.com'',
             data = [CHR 0x22] @ ''v=DMARC1; p=reject'' @ [CHR 0x22] \<rparr>
   \<and> CHR 0x22 \<notin> set (strip_surrounding_quotes ([CHR 0x22] @ ''v=DMARC1; p=reject'' @ [CHR 0x22]))
   \<and> record' (dmarc_evaluation
        [\<lparr> name = ''_dmarc.example.com'',
            data = [CHR 0x22] @ ''v=DMARC1; p=reject'' @ [CHR 0x22] \<rparr>])
       = Some ''v=DMARC1; p=reject''"
  using C6_record_unquoted
    [of "[\<lparr> name = ''example.com'', data = [CHR 0x22] @ ''v=spf1 -all'' @ [CHR 0x22] \<rparr>]"
        "\<lparr> name = ''example.com'', data = [CHR 0x22] @ ''v=spf1 -all'' @ [CHR 0x22] \<rparr>"
        "[\<lparr> name = ''_dmarc.example.com'',
            data = [CHR 0x22] @ ''v=DMARC1; p=reject'' @ [CHR 0x22] \<rparr>]"
        "\<lparr> name = ''_dmarc.example.com'',
            data = [CHR 0x22] @ ''v=DMARC1; p=reject'' @ [CHR 0x22] \<rparr>"]
  by (simp add: strip_surrounding_quotes_def dquote_def)

text \<open>
  The claim C6 as stated fails on an SPF record that is presented as two quoted strings:
  the quotes between the two strings are interior characters of the data, and the record
  loses them too.
\<close>

theorem C6_counterexample:
  "includes_str two_string_spf ''v=spf1''
   \<and> record' (spf_evaluation [\<lparr> name = ''example.com'', data = two_string_spf \<rparr>])
       = Some ''v=spf1 include:_spf.example.com -all''
   \<and> strip_surrounding_quotes two_string_spf
       = ''v=spf1 include:_spf.example.com'' @ [CHR 0x22] @ '' '' @ [CHR 0x22] @ ''-all''
   \<and> record' (spf_evaluation [\<lparr> name = ''example.com'', data = two_string_spf \<rparr>])
       \<noteq> Some (strip_surrounding_quotes two_string_spf)"
  by (simp add: spf_evaluation_def two_string_spf_def strip_surrounding_quotes_def
      remove_quotes_def dquote_def)

end
